theory Spec2Isabelle
  imports Main
begin

section \<open>The specializer of the Scopes compiler (src/prover.cpp)\<close>

text \<open>
  A shallow embedding of the specializer in \<^verbatim>\<open>src/prover.cpp\<close>. Every C++ function of the
  file that takes part in the properties below is a HOL definition of the same name.
  The headers of the repository (\<^verbatim>\<open>value.hpp\<close>, \<^verbatim>\<open>types.hpp\<close>, \<^verbatim>\<open>error.hpp\<close>,
  \<^verbatim>\<open>verify_tools.inc\<close>, \<^verbatim>\<open>builtin.hpp\<close>) are not among the sources; what the prover uses
  of them is modelled from the spec, and every such definition says so in its comment.
\<close>

subsection \<open>Types (\<^verbatim>\<open>const Type *\<close>)\<close>

type_synonym anchor = nat
type_synonym symbol = string

definition SYM_Unnamed :: symbol where
  "SYM_Unnamed = []"

text \<open>
  Modelled from the spec: the type system (\<^verbatim>\<open>types.hpp\<close>) is missing. A value of \<open>ty\<close> is a
  \<^verbatim>\<open>const Type *\<close>: either \<open>nullptr\<close> or an interned type, so that pointer equality of the
  source is equality here. The kinds are the ones the spec lists; a pointer type has its
  element type, the two flags the prover reads (readable, writable) and its storage class;
  a function type has its exception type, return type and argument types; a typename has its
  name and its storage type (\<open>nullptr\<close> while it is opaque).
\<close>

datatype ty =
    nullptr
  | TYPE_NoReturn
  | TYPE_Nothing
  | TYPE_Unknown
  | IntegerType nat bool
  | RealType nat
  | PointerType ty bool bool symbol
  | ArrayType ty nat
  | VectorType ty nat
  | TupleType "ty list"
  | UnionType "ty list"
  | FunctionType ty ty "ty list"
  | ArgumentsType "ty list"
  | TypenameType string ty

datatype TypeKind =
    TK_NoReturn | TK_Nothing | TK_Unknown | TK_Integer | TK_Real | TK_Pointer | TK_Array
  | TK_Vector | TK_Tuple | TK_Union | TK_Function | TK_Arguments | TK_Typename

text \<open>
  Modelled from the spec: the integer and real types the prover names, with the widths
  of their names; \<open>Bool\<close> is the integer type of one bit.
\<close>

definition TYPE_Bool :: ty where "TYPE_Bool = IntegerType 1 False"
definition TYPE_I32 :: ty where "TYPE_I32 = IntegerType 32 True"
definition TYPE_F32 :: ty where "TYPE_F32 = RealType 32"
definition TYPE_F64 :: ty where "TYPE_F64 = RealType 64"

text \<open>
  Modelled from the spec: the named types the prover compares callee and constant types
  with. Their storage is set up outside the sources, so they are opaque typenames here.
\<close>

definition TYPE_Closure :: ty where "TYPE_Closure = TypenameType ''Closure'' nullptr"
definition TYPE_Builtin :: ty where "TYPE_Builtin = TypenameType ''Builtin'' nullptr"
definition TYPE_ASTMacro :: ty where "TYPE_ASTMacro = TypenameType ''ASTMacro'' nullptr"
definition TYPE_Type :: ty where "TYPE_Type = TypenameType ''type'' nullptr"
definition TYPE_Symbol :: ty where "TYPE_Symbol = TypenameType ''Symbol'' nullptr"
definition TYPE_String :: ty where "TYPE_String = TypenameType ''string'' nullptr"
definition TYPE_Scope :: ty where "TYPE_Scope = TypenameType ''Scope'' nullptr"
definition TYPE_List :: ty where "TYPE_List = TypenameType ''list'' nullptr"

fun kind :: "ty \<Rightarrow> TypeKind" where
  "kind nullptr = TK_Unknown"
| "kind TYPE_NoReturn = TK_NoReturn"
| "kind TYPE_Nothing = TK_Nothing"
| "kind TYPE_Unknown = TK_Unknown"
| "kind (IntegerType w s) = TK_Integer"
| "kind (RealType w) = TK_Real"
| "kind (PointerType e r w c) = TK_Pointer"
| "kind (ArrayType e n) = TK_Array"
| "kind (VectorType e n) = TK_Vector"
| "kind (TupleType ts) = TK_Tuple"
| "kind (UnionType ts) = TK_Union"
| "kind (FunctionType e r as) = TK_Function"
| "kind (ArgumentsType ts) = TK_Arguments"
| "kind (TypenameType n s) = TK_Typename"

text \<open>Modelled from the spec: "Returning type: any type other than \<open>NoReturn\<close>".\<close>

definition is_returning :: "ty \<Rightarrow> bool" where
  "is_returning T \<longleftrightarrow> T \<noteq> TYPE_NoReturn"

text \<open>
  Modelled from the spec: the "arguments" tuple of a multi-value. The rule table of the spec
  gives a builtin called with \<^verbatim>\<open>RETARGTYPES(T)\<close> the result type \<open>T\<close>, so the arguments type of
  one type is that type; any other number of types is wrapped.
\<close>

definition arguments_type :: "ty list \<Rightarrow> ty" where
  "arguments_type ts = (case ts of [T] \<Rightarrow> T | _ \<Rightarrow> ArgumentsType ts)"

definition empty_arguments_type :: ty where
  "empty_arguments_type = arguments_type []"

fun is_arguments_type :: "ty \<Rightarrow> bool" where
  "is_arguments_type (ArgumentsType ts) = True"
| "is_arguments_type _ = False"

text \<open>
  Modelled from the spec: the element types of an arguments type, which the source reads
  through \<^verbatim>\<open>cast<TupleType>(storage_type(T).assert_ok())->values\<close>.
\<close>

fun arguments_values :: "ty \<Rightarrow> ty list" where
  "arguments_values (ArgumentsType ts) = ts"
| "arguments_values _ = []"

text \<open>Modelled from the spec: element access that yields \<open>Nothing\<close> out of range.\<close>

definition type_at_index_or_nothing :: "ty list \<Rightarrow> nat \<Rightarrow> ty" where
  "type_at_index_or_nothing ts i = (if i < length ts then ts ! i else TYPE_Nothing)"

subsection \<open>Values (\<^verbatim>\<open>Value *\<close>)\<close>

text \<open>
  Modelled from the spec: the IR nodes (\<^verbatim>\<open>value.hpp\<close> is missing). Every node has its anchor
  and its type, \<open>nullptr\<close> while the node is untyped. A \<^verbatim>\<open>X::from(...)\<close> of the source
  builds the node untyped and \<^verbatim>\<open>set_type\<close> fills the type in; constants and symbols are
  built with their type. Nodes are compared by address in the source where they are keys:
  a symbol and a template carry their identity for this. A \<open>Function\<close> is mutated while it
  is specialized, so the node is its address in the store of function objects.
\<close>

datatype symv = Sym anchor nat symbol ty bool

datatype val =
    Template anchor nat symbol "symv list" val bool "nat option"
  | Function nat
  | SymbolValue symv
  | ConstInt anchor ty nat
  | ConstReal anchor ty nat
  | ConstPointer anchor ptr
  | ConstTuple anchor ty "val list"
  | ConstArray anchor ty "val list"
  | ConstVector anchor ty "val list"
  | Extern anchor ty symbol
  | ArgumentList anchor ty "val list"
  | ExtractArgument anchor ty val nat
  | Call anchor ty val "val list"
  | Let anchor ty "symv list" "val list"
  | Loop anchor ty "symv list" "val list" val ty
  | If anchor ty "(anchor \<times> val \<times> val) list" "anchor \<times> val"
  | Break anchor ty val
  | Repeat anchor ty "val list"
  | Return anchor ty val
  | Raise anchor ty val
  | Try anchor ty val val
  | Block anchor ty "val list" val
  | Keyed anchor ty symbol val
  | SyntaxExtend anchor ty val nat
and ptr =
    PtrType ty
  | PtrClosure val "nat option"
  | PtrString string
  | PtrASTMacro nat
  | PtrRaw ty nat

text \<open>
  Modelled from the spec: the fields of a symbol are its anchor, its identity, its name,
  its type (\<open>nullptr\<close> when untyped) and whether it is variadic. The fields of a template
  are its anchor, identity, name, parameters, body, whether it is inline, and its scope
  (the identity of the template it is defined in).
\<close>

fun sym_anchor :: "symv \<Rightarrow> anchor" where "sym_anchor (Sym a i n T v) = a"
fun sym_id :: "symv \<Rightarrow> nat" where "sym_id (Sym a i n T v) = i"
fun sym_name :: "symv \<Rightarrow> symbol" where "sym_name (Sym a i n T v) = n"
fun sym_type :: "symv \<Rightarrow> ty" where "sym_type (Sym a i n T v) = T"
fun is_variadic :: "symv \<Rightarrow> bool" where "is_variadic (Sym a i n T v) = v"

text \<open>
  Modelled from the spec: a constant pointer is typed by what it points to. A type
  constant (\<^verbatim>\<open>ConstPointer::type_from\<close>) has \<open>TYPE_Type\<close>, a closure
  (\<^verbatim>\<open>ConstPointer::closure_from\<close>) \<open>TYPE_Closure\<close>, and so on; any other pointer constant
  carries its type.
\<close>

fun ptr_type :: "ptr \<Rightarrow> ty" where
  "ptr_type (PtrType T) = TYPE_Type"
| "ptr_type (PtrClosure f fr) = TYPE_Closure"
| "ptr_type (PtrString s) = TYPE_String"
| "ptr_type (PtrASTMacro m) = TYPE_ASTMacro"
| "ptr_type (PtrRaw T p) = T"

subsection \<open>Function objects, frames and the state of the prover\<close>

text \<open>
  Modelled from the spec: the \<open>Function\<close> object ("parameters, body, frame pointer, return
  type, exception type, instance-argument-type vector, completion flag") with the binding
  table of its frame, keyed by the identity of the original symbol.
\<close>

record function_obj =
  f_anchor :: anchor
  f_name :: symbol
  f_params :: "symv list"
  f_value :: "val option"
  f_type :: ty
  original :: "val option"
  frame :: "nat option"
  return_type :: ty
  except_type :: ty
  instance_args :: "ty list"
  complete :: bool
  bindings :: "(nat \<times> val) list"

datatype EvalTarget = EvalTarget_Void | EvalTarget_Symbol | EvalTarget_Return

record ASTContext =
  ctx_frame :: nat
  target :: EvalTarget
  loop :: "nat option"
  ctx_try :: "nat option"

subsection \<open>Errors\<close>

text \<open>
  Modelled from the spec: the builtins (\<^verbatim>\<open>builtin.hpp\<close> is missing) whose rules are modelled
  below; \<open>FN_Other\<close> stands for every other builtin.
\<close>

datatype Builtin =
    FN_Dump | FN_Undef | FN_TypeOf | FN_Bitcast | FN_VolatileLoad | FN_Load
  | FN_VolatileStore | FN_Store | FN_Free
  | FN_Other nat

text \<open>
  The message of \<^verbatim>\<open>SCOPES_LOCATION_ERROR\<close> is kept as the sequence of pieces streamed into
  it, a type being printed by the external printer.
\<close>

datatype msg = Str string | Ty ty

text \<open>
  Modelled from the spec: the error kinds of section 7 (\<^verbatim>\<open>error.hpp\<close> is missing), without their
  anchors and traces. \<open>error_type_mismatch\<close> is what \<^verbatim>\<open>verify\<close> raises, \<open>error_argument_count\<close>
  what \<^verbatim>\<open>checkargs\<close> raises, \<open>error_opaque_type\<close> what \<^verbatim>\<open>storage_type\<close> raises.
  Three more are not errors of the source: \<open>assertion_failed\<close> is a failed \<^verbatim>\<open>assert\<close>,
  \<open>invalid_pointer\<close> the use of a pointer or index that refers to nothing, and \<open>out_of_fuel\<close>
  a computation cut off by the bound of the model.
\<close>

datatype error =
    error_cannot_merge_expression_types ty ty
  | error_noreturn_not_last_expression
  | error_variadic_symbol_not_in_last_place
  | error_illegal_break_outside_loop
  | error_illegal_repeat_outside_loop
  | error_illegal_return_in_inline
  | error_cannot_find_frame val
  | error_unbound_symbol symv
  | error_invalid_condition_type val
  | error_constant_expected val
  | error_invalid_call_type val
  | error_invalid_operands ty ty
  | error_argument_count_mismatch nat nat
  | error_argument_type_mismatch ty ty
  | error_untyped_recursive_call
  | error_cannot_type_builtin Builtin
  | location_error "msg list"
  | error_type_mismatch ty ty
  | error_argument_count nat "nat option" nat
  | error_opaque_type ty
  | external_error nat
  | assertion_failed
  | invalid_pointer
  | out_of_fuel

text \<open>
  A job of the scheduler: its slot, its context and its node. The result of a finished job
  is stored under its slot.
\<close>

record SpecializeJob =
  job_slot :: nat
  job_ctx :: ASTContext
  job_node :: val

text \<open>
  The mutable state: the store of function objects (a \<^verbatim>\<open>Function *\<close> is an index into
  it), the \<^verbatim>\<open>return_type\<close> of every loop under construction (a \<^verbatim>\<open>Loop *\<close> is an index),
  the function cache \<^verbatim>\<open>functions\<close> (here \<open>functions_cache\<close>), the queue \<^verbatim>\<open>jobs\<close>, the result slots of the jobs, and
  the next fresh symbol identity.
\<close>

record state =
  funs :: "function_obj list"
  loops :: "ty list"
  functions_cache :: "nat list"
  jobs :: "SpecializeJob list"
  slots :: "(nat \<times> (error + val)) list"
  next_slot :: nat
  next_sym :: nat

type_synonym 'a result = "(error + 'a) \<times> state"

text \<open>
  \<^verbatim>\<open>SCOPES_GET_RESULT\<close> and \<^verbatim>\<open>SCOPES_CHECK_RESULT\<close>: an error ends the function with the state
  reached so far, a value goes on.
\<close>

definition bindR :: "'a result \<Rightarrow> ('a \<Rightarrow> state \<Rightarrow> 'b result) \<Rightarrow> 'b result" where
  "bindR m f = (case m of (Inl e, s) \<Rightarrow> (Inl e, s) | (Inr v, s) \<Rightarrow> f v s)"

subsection \<open>Reading nodes\<close>

text \<open>
  Modelled from the spec: \<^verbatim>\<open>Value::get_type\<close>, \<^verbatim>\<open>Value::is_typed\<close> and \<^verbatim>\<open>Value::anchor\<close>
  ("all carry a source anchor and an optional inferred type"). The type of an untyped node
  is read as \<open>nullptr\<close>; a function node has what its function object has.
\<close>

fun get_type :: "state \<Rightarrow> val \<Rightarrow> ty" where
  "get_type st (Template a i n ps b inl sc) = nullptr"
| "get_type st (Function f) = (if f < length (funs st) then f_type (funs st ! f) else nullptr)"
| "get_type st (SymbolValue s) = sym_type s"
| "get_type st (ConstInt a T v) = T"
| "get_type st (ConstReal a T v) = T"
| "get_type st (ConstPointer a p) = ptr_type p"
| "get_type st (ConstTuple a T vs) = T"
| "get_type st (ConstArray a T vs) = T"
| "get_type st (ConstVector a T vs) = T"
| "get_type st (Extern a T n) = T"
| "get_type st (ArgumentList a T vs) = T"
| "get_type st (ExtractArgument a T v i) = T"
| "get_type st (Call a T c as) = T"
| "get_type st (Let a T ps as) = T"
| "get_type st (Loop a T ps as v rt) = T"
| "get_type st (If a T cs e) = T"
| "get_type st (Break a T v) = T"
| "get_type st (Repeat a T vs) = T"
| "get_type st (Return a T v) = T"
| "get_type st (Raise a T v) = T"
| "get_type st (Try a T b e) = T"
| "get_type st (Block a T b v) = T"
| "get_type st (Keyed a T k v) = T"
| "get_type st (SyntaxExtend a T f e) = T"

definition is_typed :: "state \<Rightarrow> val \<Rightarrow> bool" where
  "is_typed st v \<longleftrightarrow> get_type st v \<noteq> nullptr"

fun anchor_of :: "state \<Rightarrow> val \<Rightarrow> anchor" where
  "anchor_of st (Template a i n ps b inl sc) = a"
| "anchor_of st (Function f) = (if f < length (funs st) then f_anchor (funs st ! f) else 0)"
| "anchor_of st (SymbolValue s) = sym_anchor s"
| "anchor_of st (ConstInt a T v) = a"
| "anchor_of st (ConstReal a T v) = a"
| "anchor_of st (ConstPointer a p) = a"
| "anchor_of st (ConstTuple a T vs) = a"
| "anchor_of st (ConstArray a T vs) = a"
| "anchor_of st (ConstVector a T vs) = a"
| "anchor_of st (Extern a T n) = a"
| "anchor_of st (ArgumentList a T vs) = a"
| "anchor_of st (ExtractArgument a T v i) = a"
| "anchor_of st (Call a T c as) = a"
| "anchor_of st (Let a T ps as) = a"
| "anchor_of st (Loop a T ps as v rt) = a"
| "anchor_of st (If a T cs e) = a"
| "anchor_of st (Break a T v) = a"
| "anchor_of st (Repeat a T vs) = a"
| "anchor_of st (Return a T v) = a"
| "anchor_of st (Raise a T v) = a"
| "anchor_of st (Try a T b e) = a"
| "anchor_of st (Block a T b v) = a"
| "anchor_of st (Keyed a T k v) = a"
| "anchor_of st (SyntaxExtend a T f e) = a"

text \<open>
  Modelled from the spec: \<^verbatim>\<open>ConstTuple::none_from\<close>, the \<open>none\<close> constant, which is the empty
  tuple, of type \<open>Nothing\<close>.
\<close>

definition none_from :: "anchor \<Rightarrow> val" where
  "none_from a = ConstTuple a TYPE_Nothing []"

subsection \<open>\<^verbatim>\<open>ASTContext\<close>\<close>

definition is_target_void :: "ASTContext \<Rightarrow> bool" where
  "is_target_void ctx \<longleftrightarrow> target ctx = EvalTarget_Void"

definition transform_return_type :: "ASTContext \<Rightarrow> ty \<Rightarrow> ty" where
  "transform_return_type ctx T =
     (if is_returning T \<and> is_target_void ctx then empty_arguments_type else T)"

definition with_target :: "ASTContext \<Rightarrow> EvalTarget \<Rightarrow> ASTContext" where
  "with_target ctx t = \<lparr>ctx_frame = ctx_frame ctx, target = t, loop = loop ctx, ctx_try = ctx_try ctx\<rparr>"

definition with_return_target :: "ASTContext \<Rightarrow> ASTContext" where
  "with_return_target ctx = with_target ctx EvalTarget_Return"

definition with_void_target :: "ASTContext \<Rightarrow> ASTContext" where
  "with_void_target ctx = with_target ctx EvalTarget_Void"

definition with_symbol_target :: "ASTContext \<Rightarrow> ASTContext" where
  "with_symbol_target ctx = with_target ctx EvalTarget_Symbol"

definition for_loop :: "ASTContext \<Rightarrow> nat \<Rightarrow> ASTContext" where
  "for_loop ctx l =
     \<lparr>ctx_frame = ctx_frame ctx, target = EvalTarget_Symbol, loop = Some l, ctx_try = ctx_try ctx\<rparr>"

subsection \<open>Joining types\<close>

definition merge_value_type :: "ASTContext \<Rightarrow> ty \<Rightarrow> ty \<Rightarrow> error + ty" where
  "merge_value_type ctx T1 T2 =
     (if T2 = nullptr then Inl assertion_failed
      else let T2 = transform_return_type ctx T2 in
        if T1 = nullptr then Inr T2
        else if T1 = T2 then Inr T1
        else if \<not> is_returning T1 then Inr T2
        else if \<not> is_returning T2 then Inr T1
        else Inl (error_cannot_merge_expression_types T1 T2))"

definition merge_return_type :: "ty \<Rightarrow> ty \<Rightarrow> error + ty" where
  "merge_return_type T1 T2 =
     (if T2 = nullptr then Inl assertion_failed
      else if T1 = nullptr then Inr T2
      else if T1 = T2 then Inr T1
      else if \<not> is_returning T1 then Inr T2
      else if \<not> is_returning T2 then Inr T1
      else Inl (error_cannot_merge_expression_types T1 T2))"

text \<open>
  For the algebra of the join: the outcome of a merge is the merged type, or nothing when
  the merge fails; a second merge is applied to the outcome of a first one.
\<close>

definition outcome :: "error + ty \<Rightarrow> ty option" where
  "outcome r = (case r of Inl e \<Rightarrow> None | Inr T \<Rightarrow> Some T)"

definition then_merge :: "error + ty \<Rightarrow> (ty \<Rightarrow> error + ty) \<Rightarrow> error + ty" where
  "then_merge r f = (case r of Inl e \<Rightarrow> Inl e | Inr T \<Rightarrow> f T)"

subsection \<open>Argument lists and multi-values\<close>

fun is_const :: "val \<Rightarrow> bool" where
  "is_const (ConstInt a T v) = True"
| "is_const (ConstReal a T v) = True"
| "is_const (ConstPointer a p) = True"
| "is_const (ConstTuple a T vs) = True"
| "is_const (ConstArray a T vs) = True"
| "is_const (ConstVector a T vs) = True"
| "is_const (Extern a T n) = True"
| "is_const _ = False"

fun is_useless :: "val \<Rightarrow> bool" where
  "is_useless (Template a i n ps b inl sc) = True"
| "is_useless (Function f) = True"
| "is_useless (SymbolValue s) = True"
| "is_useless (Let a T ps as) = (length ps = 0)"
| "is_useless node = is_const node"

definition extract_argument :: "state \<Rightarrow> val \<Rightarrow> nat \<Rightarrow> error + val" where
  "extract_argument st value index =
     (let anchor = anchor_of st value; T = get_type st value in
      if \<not> is_returning T then Inr value
      else if is_arguments_type T then
        (let T' = type_at_index_or_nothing (arguments_values T) index in
         if T' = TYPE_Nothing then Inr (none_from anchor)
         else (case value of
                 ArgumentList a Ta values \<Rightarrow>
                   (if index < length values then Inr (values ! index) else Inl invalid_pointer)
               | _ \<Rightarrow> Inr (ExtractArgument anchor T' value index)))
      else if index = 0 then Inr value
      else Inr (none_from anchor))"

definition arguments_type_from_arguments :: "state \<Rightarrow> val list \<Rightarrow> ty" where
  "arguments_type_from_arguments st values = arguments_type (map (get_type st) values)"

definition build_argument_list :: "state \<Rightarrow> anchor \<Rightarrow> val list \<Rightarrow> val" where
  "build_argument_list st anchor values =
     (if length values = 1 then values ! 0
      else ArgumentList anchor (arguments_type_from_arguments st values) values)"

subsection \<open>Frames\<close>

text \<open>
  Modelled from the spec: the binding table of a frame maps an original node to its
  specialized replacement, and a frame has its enclosing frame. \<^verbatim>\<open>Function::bind\<close>,
  \<^verbatim>\<open>resolve\<close> and \<^verbatim>\<open>find_frame\<close> are not in the sources. The prover only binds
  symbols, so the table is keyed by the identity of a symbol and no other node is ever
  found in it. A name bound by an enclosing function is found through the chain of
  frames; the chain is followed for as many steps as there are function objects, which is
  the whole chain, since a function's frame exists before the function does.
\<close>

definition update_fun :: "nat \<Rightarrow> (function_obj \<Rightarrow> function_obj) \<Rightarrow> state \<Rightarrow> state" where
  "update_fun f g st =
     (if f < length (funs st) then st\<lparr>funs := (funs st)[f := g (funs st ! f)]\<rparr> else st)"

definition bind_frame :: "nat \<Rightarrow> symv \<Rightarrow> val \<Rightarrow> state \<Rightarrow> state" where
  "bind_frame f key v st = update_fun f (\<lambda>fn. fn\<lparr>bindings := (sym_id key, v) # bindings fn\<rparr>) st"

fun resolve_from :: "nat \<Rightarrow> state \<Rightarrow> nat option \<Rightarrow> nat \<Rightarrow> val option" where
  "resolve_from 0 st fr k = None"
| "resolve_from (Suc n) st None k = None"
| "resolve_from (Suc n) st (Some f) k =
     (if f < length (funs st) then
        (case map_of (bindings (funs st ! f)) k of
           Some v \<Rightarrow> Some v
         | None \<Rightarrow> resolve_from n st (frame (funs st ! f)) k)
      else None)"

definition resolve :: "state \<Rightarrow> nat \<Rightarrow> val \<Rightarrow> val option" where
  "resolve st f node =
     (case node of
        SymbolValue s \<Rightarrow> resolve_from (length (funs st)) st (Some f) (sym_id s)
      | _ \<Rightarrow> None)"

fun template_id :: "val \<Rightarrow> nat option" where
  "template_id (Template a i n ps b inl sc) = Some i"
| "template_id _ = None"

fun template_is_inline :: "val \<Rightarrow> bool" where
  "template_is_inline (Template a i n ps b inl sc) = inl"
| "template_is_inline _ = False"

definition original_id :: "function_obj \<Rightarrow> nat option" where
  "original_id fn = (case original fn of None \<Rightarrow> None | Some t \<Rightarrow> template_id t)"

text \<open>\<^verbatim>\<open>frame->original && frame->original->is_inline()\<close>\<close>

definition frame_is_inline :: "function_obj \<Rightarrow> bool" where
  "frame_is_inline fn = (case original fn of None \<Rightarrow> False | Some t \<Rightarrow> template_is_inline t)"

fun find_frame_from :: "nat \<Rightarrow> state \<Rightarrow> nat option \<Rightarrow> nat \<Rightarrow> nat option" where
  "find_frame_from 0 st fr scope = None"
| "find_frame_from (Suc n) st None scope = None"
| "find_frame_from (Suc n) st (Some f) scope =
     (if f < length (funs st) then
        (if original_id (funs st ! f) = Some scope then Some f
         else find_frame_from n st (frame (funs st ! f)) scope)
      else None)"

definition find_frame :: "state \<Rightarrow> nat \<Rightarrow> nat \<Rightarrow> nat option" where
  "find_frame st f scope = find_frame_from (length (funs st)) st (Some f) scope"

text \<open>
  Modelled from the spec: "Symbolic value: a constant, template, symbol, or function".
\<close>

fun is_symbolic :: "val \<Rightarrow> bool" where
  "is_symbolic (Template a i n ps b inl sc) = True"
| "is_symbolic (Function f) = True"
| "is_symbolic (SymbolValue s) = True"
| "is_symbolic node = is_const node"

text \<open>
  Modelled from the spec: \<^verbatim>\<open>SymbolValue::from(anchor, name, type)\<close>, "a fresh specialized
  symbol carrying the argument's type": a new symbol, with an identity of its own.
\<close>

definition SymbolValue_from :: "anchor \<Rightarrow> symbol \<Rightarrow> ty \<Rightarrow> state \<Rightarrow> symv \<times> state" where
  "SymbolValue_from a n T st = (Sym a (next_sym st) n T False, st\<lparr>next_sym := Suc (next_sym st)\<rparr>)"

subsection \<open>Specializing arguments and binding parameters\<close>

text \<open>
  The specializer is recursive through every node rule. The rules take the recursive
  entry \<^verbatim>\<open>specialize(ctx, node)\<close> as their first argument \<open>spec\<close>; the recursion is
  closed at the end, in \<open>specialize\<close>.
\<close>

type_synonym spec = "ASTContext \<Rightarrow> val \<Rightarrow> state \<Rightarrow> val result"

text \<open>
  The inner loop \<^verbatim>\<open>for (j = 0; j < valcount; ++j) outargs.push_back(extract_argument(value, j))\<close>.
\<close>

fun extract_arguments :: "state \<Rightarrow> val \<Rightarrow> nat list \<Rightarrow> error + val list" where
  "extract_arguments st value [] = Inr []"
| "extract_arguments st value (j # js) =
     (case extract_argument st value j of
        Inl e \<Rightarrow> Inl e
      | Inr x \<Rightarrow> (case extract_arguments st value js of Inl e \<Rightarrow> Inl e | Inr xs \<Rightarrow> Inr (x # xs)))"

text \<open>
  The loop of \<open>specialize_arguments\<close> from index \<open>i\<close> on: the values still to do are the
  last argument, and \<open>(i + 1) == count\<close> holds when one value is left.
\<close>

fun specialize_arguments_from ::
  "spec \<Rightarrow> ASTContext \<Rightarrow> val list \<Rightarrow> val list \<Rightarrow> state \<Rightarrow> val list result" where
  "specialize_arguments_from spec subctx outargs [] st = (Inr outargs, st)"
| "specialize_arguments_from spec subctx outargs (v # rest) st =
     (case spec subctx v st of
        (Inl e, st) \<Rightarrow> (Inl e, st)
      | (Inr value, st) \<Rightarrow>
          (let T = get_type st value in
           if \<not> is_returning T then (Inl error_noreturn_not_last_expression, st)
           else if is_arguments_type T then
             (if rest = [] then
                (case extract_arguments st value [0 ..< length (arguments_values T)] of
                   Inl e \<Rightarrow> (Inl e, st)
                 | Inr xs \<Rightarrow> (Inr (outargs @ xs), st))
              else
                (case extract_argument st value 0 of
                   Inl e \<Rightarrow> (Inl e, st)
                 | Inr x \<Rightarrow> specialize_arguments_from spec subctx (outargs @ [x]) rest st))
           else specialize_arguments_from spec subctx (outargs @ [value]) rest st))"

definition specialize_arguments :: "spec \<Rightarrow> ASTContext \<Rightarrow> val list \<Rightarrow> state \<Rightarrow> val list result" where
  "specialize_arguments spec ctx values st =
     specialize_arguments_from spec (with_symbol_target ctx) [] values st"

text \<open>
  The loop of \<open>specialize_bind_specialized_arguments\<close> from index \<open>i\<close> on, over the
  parameters still to bind; \<open>count\<close> is the number of all parameters.
\<close>

fun specialize_bind_specialized_arguments_from ::
  "ASTContext \<Rightarrow> nat \<Rightarrow> val list \<Rightarrow> bool \<Rightarrow> nat \<Rightarrow> symv list \<Rightarrow> symv list \<times> val list \<Rightarrow> state
   \<Rightarrow> (symv list \<times> val list) result" where
  "specialize_bind_specialized_arguments_from ctx count tmpargs inline_constants i [] out st =
     (Inr out, st)"
| "specialize_bind_specialized_arguments_from ctx count tmpargs inline_constants i (oldsym # rest)
     out st =
     (if is_variadic oldsym \<and> i + 1 < count then
        (Inl error_variadic_symbol_not_in_last_place, st)
      else
        (let newval =
           (if is_variadic oldsym then
              (if i + 1 = length tmpargs then tmpargs ! i
               else ArgumentList (sym_anchor oldsym)
                      (arguments_type_from_arguments st (drop i tmpargs)) (drop i tmpargs))
            else if i < length tmpargs then tmpargs ! i
            else none_from (sym_anchor oldsym))
         in
           if inline_constants \<and> is_symbolic newval then
             specialize_bind_specialized_arguments_from ctx count tmpargs inline_constants
               (i + 1) rest out (bind_frame (ctx_frame ctx) oldsym newval st)
           else
             (case SymbolValue_from (sym_anchor oldsym) (sym_name oldsym) (get_type st newval) st of
                (newsym, st) \<Rightarrow>
                  specialize_bind_specialized_arguments_from ctx count tmpargs inline_constants
                    (i + 1) rest (fst out @ [newsym], snd out @ [newval])
                    (bind_frame (ctx_frame ctx) oldsym (SymbolValue newsym) st))))"

definition specialize_bind_specialized_arguments ::
  "ASTContext \<Rightarrow> symv list \<Rightarrow> val list \<Rightarrow> bool \<Rightarrow> state \<Rightarrow> (symv list \<times> val list) result" where
  "specialize_bind_specialized_arguments ctx params tmpargs inline_constants st =
     specialize_bind_specialized_arguments_from ctx (length params) tmpargs inline_constants
       0 params ([], []) st"

definition specialize_bind_arguments ::
  "spec \<Rightarrow> ASTContext \<Rightarrow> symv list \<Rightarrow> val list \<Rightarrow> bool \<Rightarrow> state
   \<Rightarrow> (symv list \<times> val list) result" where
  "specialize_bind_arguments spec ctx params values inline_constants st =
     bindR (specialize_arguments spec ctx values st)
       (\<lambda>tmpargs st. specialize_bind_specialized_arguments ctx params tmpargs inline_constants st)"

subsection \<open>Specializing a template for argument types (the function cache)\<close>

text \<open>
  Modelled from the spec: \<^verbatim>\<open>verify(expected, got)\<close> of \<^verbatim>\<open>verify_tools.inc\<close> ("a typed original
  parameter must agree with the supplied type").
\<close>

definition verify :: "ty \<Rightarrow> ty \<Rightarrow> error + unit" where
  "verify typea typeb = (if typea = typeb then Inr () else Inl (error_type_mismatch typea typeb))"

text \<open>
  Modelled from the spec: the function types of the type system. A function that does not
  raise has the exception type \<open>NoReturn\<close>; a native read-only pointer is readable, not
  writable, and has no storage class.
\<close>

definition raising_function_type :: "ty \<Rightarrow> ty \<Rightarrow> ty list \<Rightarrow> ty" where
  "raising_function_type ex ret args = FunctionType ex ret args"

definition native_ro_pointer_type :: "ty \<Rightarrow> ty" where
  "native_ro_pointer_type T = PointerType T True False SYM_Unnamed"

fun is_function_pointer :: "ty \<Rightarrow> bool" where
  "is_function_pointer (PointerType (FunctionType e r as) rd wr c) = True"
| "is_function_pointer _ = False"

fun ft_argument_types :: "ty \<Rightarrow> ty list" where
  "ft_argument_types (PointerType (FunctionType e r as) rd wr c) = as"
| "ft_argument_types _ = []"

fun ft_return_type :: "ty \<Rightarrow> ty" where
  "ft_return_type (PointerType (FunctionType e r as) rd wr c) = r"
| "ft_return_type _ = nullptr"

fun ft_except_type :: "ty \<Rightarrow> ty" where
  "ft_except_type (PointerType (FunctionType e r as) rd wr c) = e"
| "ft_except_type _ = nullptr"

definition has_exception :: "ty \<Rightarrow> bool" where
  "has_exception T \<longleftrightarrow> is_returning (ft_except_type T)"

text \<open>
  Modelled from the spec: \<^verbatim>\<open>Function::from(anchor, name, {}, value)\<close>, a new function object,
  and \<^verbatim>\<open>Function::append_param\<close>. The fields that \<^verbatim>\<open>Function::from\<close> is not given start
  null, false or empty: the prover tests \<^verbatim>\<open>return_type\<close> against null, and sets both types
  to \<open>NoReturn\<close> itself for a function it caches.
\<close>

definition Function_from :: "anchor \<Rightarrow> symbol \<Rightarrow> val option \<Rightarrow> function_obj" where
  "Function_from a n v =
     \<lparr>f_anchor = a, f_name = n, f_params = [], f_value = v, f_type = nullptr,
      original = None, frame = None, return_type = nullptr, except_type = nullptr,
      instance_args = [], complete = False, bindings = []\<rparr>"

definition append_param :: "nat \<Rightarrow> symv \<Rightarrow> state \<Rightarrow> state" where
  "append_param fn p st = update_fun fn (\<lambda>f. f\<lparr>f_params := f_params f @ [p]\<rparr>) st"

definition get_function_type :: "function_obj \<Rightarrow> ty" where
  "get_function_type fn =
     native_ro_pointer_type
       (raising_function_type (except_type fn) (return_type fn) (map sym_type (f_params fn)))"

text \<open>
  \<^verbatim>\<open>functions.find(&key)\<close> with \<^verbatim>\<open>FunctionSet::KeyEqual\<close>: the same frame, the same template
  and the same instance argument types.
\<close>

definition KeyEqual :: "function_obj \<Rightarrow> nat option \<Rightarrow> val \<Rightarrow> ty list \<Rightarrow> bool" where
  "KeyEqual lhs fr func types \<longleftrightarrow>
     frame lhs = fr \<and> original_id lhs = template_id func \<and> instance_args lhs = types"

definition find_function :: "state \<Rightarrow> nat option \<Rightarrow> val \<Rightarrow> ty list \<Rightarrow> nat option" where
  "find_function st fr func types =
     find (\<lambda>f. f < length (funs st) \<and> KeyEqual (funs st ! f) fr func types) (functions_cache st)"

text \<open>
  The variadic branch for more or fewer than one remaining type: one new parameter for
  every remaining type.
\<close>

fun variadic_params :: "nat \<Rightarrow> symv \<Rightarrow> ty list \<Rightarrow> state \<Rightarrow> val list \<times> state" where
  "variadic_params fn oldparam [] st = ([], st)"
| "variadic_params fn oldparam (T # Ts) st =
     (case SymbolValue_from (sym_anchor oldparam) (sym_name oldparam) T st of
        (newparam, st) \<Rightarrow>
          (case variadic_params fn oldparam Ts (append_param fn newparam st) of
             (args, st) \<Rightarrow> (SymbolValue newparam # args, st)))"

text \<open>
  The parameter loop of \<^verbatim>\<open>specialize(Function *, Template *, const ArgTypes &)\<close> from index
  \<open>i\<close> on.
\<close>

fun specialize_function_params ::
  "nat \<Rightarrow> nat \<Rightarrow> ty list \<Rightarrow> nat \<Rightarrow> symv list \<Rightarrow> state \<Rightarrow> unit result" where
  "specialize_function_params fn count types i [] st = (Inr (), st)"
| "specialize_function_params fn count types i (oldparam # rest) st =
     (if is_variadic oldparam then
        (if i + 1 < count then (Inl error_variadic_symbol_not_in_last_place, st)
         else if i + 1 = length types then
           (case SymbolValue_from (sym_anchor oldparam) (sym_name oldparam) (types ! i) st of
              (newparam, st) \<Rightarrow>
                specialize_function_params fn count types (i + 1) rest
                  (bind_frame fn oldparam (SymbolValue newparam) (append_param fn newparam st)))
         else
           (case variadic_params fn oldparam (drop i types) st of
              (args, st) \<Rightarrow>
                specialize_function_params fn count types (i + 1) rest
                  (bind_frame fn oldparam
                     (ArgumentList (sym_anchor oldparam) (arguments_type (drop i types)) args) st)))
      else
        (let T = (if i < length types then types ! i else TYPE_Nothing) in
         case (if sym_type oldparam \<noteq> nullptr then verify (sym_type oldparam) T else Inr ()) of
           Inl e \<Rightarrow> (Inl e, st)
         | Inr u \<Rightarrow>
             (case SymbolValue_from (sym_anchor oldparam) (sym_name oldparam) T st of
                (newparam, st) \<Rightarrow>
                  specialize_function_params fn count types (i + 1) rest
                    (bind_frame fn oldparam (SymbolValue newparam) (append_param fn newparam st)))))"

text \<open>
  \<^verbatim>\<open>specialize(Function *frame, Template *func, const ArgTypes &types)\<close>. The error trace
  added when the body fails is not part of the model.
\<close>

definition specialize_function ::
  "spec \<Rightarrow> nat option \<Rightarrow> val \<Rightarrow> ty list \<Rightarrow> state \<Rightarrow> nat result" where
  "specialize_function spec fr func types st =
     (case func of
        Template a tid name params value inl sc \<Rightarrow>
          (case find_function st fr func types of
             Some it \<Rightarrow> (Inr it, st)
           | None \<Rightarrow>
               (let fn = length (funs st);
                    st = st\<lparr>funs := funs st @
                      [(Function_from a name (Some value))
                         \<lparr>original := Some func, frame := fr, return_type := TYPE_NoReturn,
                          except_type := TYPE_NoReturn, instance_args := types\<rparr>]\<rparr>
                in bindR (specialize_function_params fn (length params) types 0 params st)
                  (\<lambda>u st.
                    let st = st\<lparr>functions_cache := functions_cache st @ [fn]\<rparr>;
                        subctx = \<lparr>ctx_frame = fn, target = EvalTarget_Return, loop = None,
                                  ctx_try = None\<rparr>
                    in bindR (spec subctx value st)
                      (\<lambda>result st.
                        let st = update_fun fn (\<lambda>f. f\<lparr>f_value := Some result\<rparr>) st in
                        if is_returning (get_type st result) then (Inl assertion_failed, st)
                        else
                          (Inr fn,
                           update_fun fn (\<lambda>f. f\<lparr>f_type := get_function_type f\<rparr>)
                             (update_fun fn (\<lambda>f. f\<lparr>complete := True\<rparr>) st))))))
      | _ \<Rightarrow> (Inl assertion_failed, st))"

subsection \<open>External collaborators\<close>

text \<open>
  What the prover calls but the sources do not contain, and the spec leaves open, is a
  parameter of the model: \<^verbatim>\<open>Block::canonicalize\<close>; the call of an AST macro through its
  function pointer; the rule of every builtin that is not modelled below (\<open>FN_Other\<close>); the
  numbering of the builtins (\<^verbatim>\<open>Builtin((KnownSymbol)x->value)\<close>); and what \<open>SyntaxExtend\<close> does
  with the specialized function (compile it, run it, expand the rest of the list).
\<close>

record externals =
  canonicalize :: "val \<Rightarrow> val"
  call_astmacro :: "nat \<Rightarrow> val list \<Rightarrow> error + val"
  builtin_rule :: "nat \<Rightarrow> state \<Rightarrow> anchor \<Rightarrow> val \<Rightarrow> val list \<Rightarrow> error + val"
  known_symbol :: "nat \<Rightarrow> Builtin"
  syntax_extend :: "state \<Rightarrow> nat \<Rightarrow> val \<Rightarrow> error + val"

subsection \<open>Node rules\<close>

text \<open>The loop of \<open>specialize_Block\<close> over the statements of the body.\<close>

fun specialize_Block_body ::
  "spec \<Rightarrow> ASTContext \<Rightarrow> val list \<Rightarrow> val list \<Rightarrow> state \<Rightarrow> val list result" where
  "specialize_Block_body spec subctx newbody [] st = (Inr newbody, st)"
| "specialize_Block_body spec subctx newbody (src # rest) st =
     (case spec subctx src st of
        (Inl e, st) \<Rightarrow> (Inl e, st)
      | (Inr newsrc, st) \<Rightarrow>
          (if \<not> is_returning (get_type st newsrc) then
             (Inl error_noreturn_not_last_expression, st)
           else specialize_Block_body spec subctx
                  (if \<not> is_useless newsrc then newbody @ [newsrc] else newbody) rest st))"

definition specialize_Block ::
  "externals \<Rightarrow> spec \<Rightarrow> ASTContext \<Rightarrow> anchor \<Rightarrow> val list \<Rightarrow> val \<Rightarrow> state \<Rightarrow> val result" where
  "specialize_Block ext spec ctx a body v st =
     bindR (specialize_Block_body spec (with_void_target ctx) [] body st)
       (\<lambda>newbody st. bindR (spec ctx v st)
         (\<lambda>newvalue st.
           let rtype = transform_return_type ctx (get_type st newvalue)
           in (Inr (canonicalize ext (Block a rtype newbody newvalue)), st)))"

definition specialize_ArgumentList ::
  "spec \<Rightarrow> ASTContext \<Rightarrow> anchor \<Rightarrow> val list \<Rightarrow> state \<Rightarrow> val result" where
  "specialize_ArgumentList spec ctx a vs st =
     bindR (specialize_arguments spec ctx vs st)
       (\<lambda>values st. (Inr (build_argument_list st a values), st))"

definition specialize_ExtractArgument ::
  "spec \<Rightarrow> ASTContext \<Rightarrow> val \<Rightarrow> nat \<Rightarrow> state \<Rightarrow> val result" where
  "specialize_ExtractArgument spec ctx v index st =
     bindR (spec ctx v st) (\<lambda>value st. (extract_argument st value index, st))"

definition specialize_Try :: "spec \<Rightarrow> ASTContext \<Rightarrow> val \<Rightarrow> val \<Rightarrow> state \<Rightarrow> val result" where
  "specialize_Try spec ctx try_body except_body st =
     bindR (spec ctx try_body st)
       (\<lambda>t st. bindR (spec ctx except_body st) (\<lambda>e st. (Inl assertion_failed, st)))"

definition specialize_Let ::
  "spec \<Rightarrow> ASTContext \<Rightarrow> anchor \<Rightarrow> symv list \<Rightarrow> val list \<Rightarrow> state \<Rightarrow> val result" where
  "specialize_Let spec ctx a params args st =
     bindR (specialize_bind_arguments spec ctx params args True st)
       (\<lambda>out st. (Inr (Let a empty_arguments_type (fst out) (snd out)), st))"

text \<open>
  \<^verbatim>\<open>Loop::from\<close> makes a new loop, whose \<^verbatim>\<open>return_type\<close> is null until a \<open>Break\<close> or the end
  of the body sets it; the new loop is the next index of \<open>loops\<close>.
\<close>

definition specialize_Loop ::
  "spec \<Rightarrow> ASTContext \<Rightarrow> anchor \<Rightarrow> symv list \<Rightarrow> val list \<Rightarrow> val \<Rightarrow> state \<Rightarrow> val result" where
  "specialize_Loop spec ctx a params args v st =
     (let newloop = length (loops st); st = st\<lparr>loops := loops st @ [nullptr]\<rparr>
      in bindR (specialize_bind_arguments spec ctx params args False st)
        (\<lambda>out st. bindR (spec (for_loop ctx newloop) v st)
          (\<lambda>newvalue st.
            let rtype = get_type st newvalue in
            if newloop < length (loops st) then
              (case merge_value_type ctx (loops st ! newloop) rtype of
                 Inl e \<Rightarrow> (Inl e, st)
               | Inr T \<Rightarrow>
                   (Inr (Loop a T (fst out) (snd out) newvalue T),
                    st\<lparr>loops := (loops st)[newloop := T]\<rparr>))
            else (Inl invalid_pointer, st))))"

definition specialize_Break :: "spec \<Rightarrow> ASTContext \<Rightarrow> anchor \<Rightarrow> val \<Rightarrow> state \<Rightarrow> val result" where
  "specialize_Break spec ctx a v st =
     (case loop ctx of
        None \<Rightarrow> (Inl error_illegal_break_outside_loop, st)
      | Some l \<Rightarrow>
          (let subctx = with_symbol_target ctx
           in bindR (spec subctx v st)
             (\<lambda>value st.
               if l < length (loops st) then
                 (case merge_value_type subctx (loops st ! l) (get_type st value) of
                    Inl e \<Rightarrow> (Inl e, st)
                  | Inr T \<Rightarrow> (Inr (Break a TYPE_NoReturn value), st\<lparr>loops := (loops st)[l := T]\<rparr>))
               else (Inl invalid_pointer, st))))"

definition specialize_Repeat ::
  "spec \<Rightarrow> ASTContext \<Rightarrow> anchor \<Rightarrow> val list \<Rightarrow> state \<Rightarrow> val result" where
  "specialize_Repeat spec ctx a args st =
     (case loop ctx of
        None \<Rightarrow> (Inl error_illegal_repeat_outside_loop, st)
      | Some l \<Rightarrow>
          bindR (specialize_arguments spec ctx args st)
            (\<lambda>newargs st. (Inr (Repeat a TYPE_NoReturn newargs), st)))"

text \<open>
  The loop of \<open>make_return\<close> that walks past the frames whose template is inline. It stops
  after at most as many steps as there are function objects; a longer walk is a cycle of
  frames, on which the source does not return.
\<close>

fun return_frame :: "nat \<Rightarrow> state \<Rightarrow> nat \<Rightarrow> error + nat" where
  "return_frame 0 st f = Inl out_of_fuel"
| "return_frame (Suc n) st f =
     (if f < length (funs st) then
        (if frame_is_inline (funs st ! f) then
           (case frame (funs st ! f) of
              None \<Rightarrow> Inl assertion_failed
            | Some f' \<Rightarrow> return_frame n st f')
         else Inr f)
      else Inl invalid_pointer)"

definition make_return :: "ASTContext \<Rightarrow> anchor \<Rightarrow> val \<Rightarrow> state \<Rightarrow> val result" where
  "make_return ctx a v st =
     (case return_frame (Suc (length (funs st))) st (ctx_frame ctx) of
        Inl e \<Rightarrow> (Inl e, st)
      | Inr f \<Rightarrow>
          (case merge_return_type (return_type (funs st ! f)) (get_type st v) of
             Inl e \<Rightarrow> (Inl e, st)
           | Inr T \<Rightarrow>
               (Inr (Return a TYPE_NoReturn v), update_fun f (\<lambda>fn. fn\<lparr>return_type := T\<rparr>) st)))"

definition specialize_Return :: "spec \<Rightarrow> ASTContext \<Rightarrow> anchor \<Rightarrow> val \<Rightarrow> state \<Rightarrow> val result" where
  "specialize_Return spec ctx a v st =
     (if \<not> ctx_frame ctx < length (funs st) then (Inl invalid_pointer, st)
      else if frame_is_inline (funs st ! ctx_frame ctx) then
        (Inl error_illegal_return_in_inline, st)
      else bindR (spec (with_symbol_target ctx) v st)
        (\<lambda>value st.
          if target ctx = EvalTarget_Return then (Inr value, st)
          else make_return ctx a value st))"

definition specialize_Raise :: "spec \<Rightarrow> ASTContext \<Rightarrow> anchor \<Rightarrow> val \<Rightarrow> state \<Rightarrow> val result" where
  "specialize_Raise spec ctx a v st =
     bindR (spec (with_symbol_target ctx) v st)
       (\<lambda>value st.
         if \<not> ctx_frame ctx < length (funs st) then (Inl invalid_pointer, st)
         else
           (case merge_return_type (except_type (funs st ! ctx_frame ctx)) (get_type st value) of
              Inl e \<Rightarrow> (Inl e, st)
            | Inr T \<Rightarrow>
                (Inr (Raise a TYPE_NoReturn value),
                 update_fun (ctx_frame ctx) (\<lambda>fn. fn\<lparr>except_type := T\<rparr>) st)))"

text \<open>
  \<open>specialize_Keyed\<close>. \<^verbatim>\<open>Keyed::from(anchor, key, value)\<close> is given no type, as the other
  \<^verbatim>\<open>from\<close> of nodes are not, and unlike the other rules \<open>specialize_Keyed\<close> does not call
  \<^verbatim>\<open>set_type\<close> on the node: it is returned untyped.
\<close>

definition specialize_Keyed ::
  "spec \<Rightarrow> ASTContext \<Rightarrow> anchor \<Rightarrow> symbol \<Rightarrow> val \<Rightarrow> state \<Rightarrow> val result" where
  "specialize_Keyed spec ctx a key v st =
     bindR (spec ctx v st) (\<lambda>value st. (Inr (Keyed a nullptr key value), st))"

definition specialize_SymbolValue :: "ASTContext \<Rightarrow> symv \<Rightarrow> state \<Rightarrow> val result" where
  "specialize_SymbolValue ctx s st =
     (case resolve st (ctx_frame ctx) (SymbolValue s) of
        None \<Rightarrow> (Inl (error_unbound_symbol s), st)
      | Some v \<Rightarrow> (Inr v, st))"

fun template_scope :: "val \<Rightarrow> nat option" where
  "template_scope (Template a i n ps b inl sc) = sc"
| "template_scope _ = None"

definition specialize_Template :: "ASTContext \<Rightarrow> val \<Rightarrow> state \<Rightarrow> val result" where
  "specialize_Template ctx tmpl st =
     (case template_scope tmpl of
        None \<Rightarrow> (Inl assertion_failed, st)
      | Some scope \<Rightarrow>
          (case find_frame st (ctx_frame ctx) scope of
             None \<Rightarrow> (Inl (error_cannot_find_frame tmpl), st)
           | Some fr \<Rightarrow> (Inr (ConstPointer (anchor_of st tmpl) (PtrClosure tmpl (Some fr))), st)))"

definition specialize_SyntaxExtend ::
  "externals \<Rightarrow> spec \<Rightarrow> ASTContext \<Rightarrow> val \<Rightarrow> val \<Rightarrow> state \<Rightarrow> val result" where
  "specialize_SyntaxExtend ext spec ctx sx func st =
     (case template_scope func of
        None \<Rightarrow> (Inl assertion_failed, st)
      | Some scope \<Rightarrow>
          (case find_frame st (ctx_frame ctx) scope of
             None \<Rightarrow> (Inl (error_cannot_find_frame func), st)
           | Some fr \<Rightarrow>
               bindR (specialize_function spec (Some fr) func [TYPE_Scope] st)
                 (\<lambda>fn st.
                   case syntax_extend ext st fn sx of
                     Inl e \<Rightarrow> (Inl e, st)
                   | Inr nextvalue \<Rightarrow> spec ctx nextvalue st)))"

subsection \<open>The cooperative scheduler\<close>

text \<open>
  A job runs \<^verbatim>\<open>specialize(job->ctx, job->node)\<close> on a coroutine of its own and transfers
  back when it is done; it never yields before. So \<open>process_jobs\<close> runs the jobs of the
  queue one after the other, each to its end, a job that calls \<open>process_jobs\<close> itself
  running the rest of the queue inside. The \<^verbatim>\<open>while\<close> loop is bounded by \<open>n\<close> jobs.
\<close>

fun process_jobs :: "nat \<Rightarrow> spec \<Rightarrow> nat \<Rightarrow> state \<Rightarrow> nat result" where
  "process_jobs 0 spec processed st =
     (case jobs st of [] \<Rightarrow> (Inr processed, st) | job # rest \<Rightarrow> (Inl out_of_fuel, st))"
| "process_jobs (Suc n) spec processed st =
     (case jobs st of
        [] \<Rightarrow> (Inr processed, st)
      | job # rest \<Rightarrow>
          (case spec (job_ctx job) (job_node job) (st\<lparr>jobs := rest\<rparr>) of
             (r, st) \<Rightarrow>
               process_jobs n spec (processed + 1) (st\<lparr>slots := (job_slot job, r) # slots st\<rparr>)))"

definition wait_for_return_type :: "nat \<Rightarrow> spec \<Rightarrow> nat \<Rightarrow> state \<Rightarrow> bool result" where
  "wait_for_return_type n spec f st =
     bindR (process_jobs n spec 0 st)
       (\<lambda>processed st.
         if f < length (funs st) then (Inr (return_type (funs st ! f) \<noteq> nullptr), st)
         else (Inl invalid_pointer, st))"

text \<open>
  In the source a failed \<^verbatim>\<open>Result\<close> carries no error: the error is the one set last
  (\<^verbatim>\<open>set_last_error\<close>), and every job of the queue has run before a result is read. So
  when the results are read in the order of the jobs and one has failed, what
  \<open>specialize_jobs\<close> returns is the error set last, which is the error of the job that
  failed most recently; \<open>slots\<close> has the finished jobs, the most recent first.
\<close>

fun last_error :: "(nat \<times> (error + val)) list \<Rightarrow> error" where
  "last_error [] = assertion_failed"
| "last_error ((i, Inl e) # sl) = e"
| "last_error ((i, Inr v) # sl) = last_error sl"

fun job_results :: "(nat \<times> (error + val)) list \<Rightarrow> nat list \<Rightarrow> error + val list" where
  "job_results sl [] = Inr []"
| "job_results sl (i # js) =
     (case map_of sl i of
        None \<Rightarrow> Inl assertion_failed
      | Some (Inl e) \<Rightarrow> Inl (last_error sl)
      | Some (Inr v) \<Rightarrow>
          (case job_results sl js of Inl e \<Rightarrow> Inl e | Inr vs \<Rightarrow> Inr (v # vs)))"

definition specialize_jobs ::
  "nat \<Rightarrow> spec \<Rightarrow> ASTContext \<Rightarrow> val list \<Rightarrow> state \<Rightarrow> val list result" where
  "specialize_jobs n spec ctx nodes st =
     (let ids = [next_slot st ..< next_slot st + length nodes];
          local_jobs = map (\<lambda>(i, node). \<lparr>job_slot = i, job_ctx = ctx, job_node = node\<rparr>)
                         (zip ids nodes);
          st = st\<lparr>jobs := jobs st @ local_jobs, next_slot := next_slot st + length nodes\<rparr>
      in bindR (process_jobs n spec 0 st)
        (\<lambda>processed st.
          if list_ex (\<lambda>i. map_of (slots st) i = None) ids then (Inl assertion_failed, st)
          else (job_results (slots st) ids, st)))"

subsection \<open>\<open>If\<close>\<close>

text \<open>
  The loop of \<open>specialize_If\<close> over the clauses: it yields the clauses that stay, with
  their specialized conditions, and the else-clause.
\<close>

fun specialize_If_clauses ::
  "spec \<Rightarrow> ASTContext \<Rightarrow> (anchor \<times> val \<times> val) list \<Rightarrow> (anchor \<times> val \<times> val) list
   \<Rightarrow> anchor \<times> val \<Rightarrow> state \<Rightarrow> ((anchor \<times> val \<times> val) list \<times> (anchor \<times> val)) result" where
  "specialize_If_clauses spec subctx clauses [] else_clause st = (Inr (clauses, else_clause), st)"
| "specialize_If_clauses spec subctx clauses ((a, cond, v) # rest) else_clause st =
     (case spec subctx cond st of
        (Inl e, st) \<Rightarrow> (Inl e, st)
      | (Inr newcond, st) \<Rightarrow>
          (if get_type st newcond \<noteq> TYPE_Bool then
             (Inl (error_invalid_condition_type newcond), st)
           else
             (case newcond of
                ConstInt ca cT cv \<Rightarrow>
                  (if cv \<noteq> 0 then (Inr (clauses, (a, v)), st)
                   else specialize_If_clauses spec subctx clauses rest else_clause st)
              | _ \<Rightarrow>
                  specialize_If_clauses spec subctx (clauses @ [(a, newcond, v)]) rest
                    else_clause st)))"

text \<open>The loop that joins the types of the specialized branches.\<close>

fun merge_value_types :: "ASTContext \<Rightarrow> state \<Rightarrow> ty \<Rightarrow> val list \<Rightarrow> error + ty" where
  "merge_value_types ctx st rtype [] = Inr rtype"
| "merge_value_types ctx st rtype (v # vs) =
     (case merge_value_type ctx rtype (get_type st v) of
        Inl e \<Rightarrow> Inl e
      | Inr T \<Rightarrow> merge_value_types ctx st T vs)"

definition specialize_If ::
  "nat \<Rightarrow> spec \<Rightarrow> ASTContext \<Rightarrow> anchor \<Rightarrow> (anchor \<times> val \<times> val) list \<Rightarrow> anchor \<times> val \<Rightarrow> state
   \<Rightarrow> val result" where
  "specialize_If n spec ctx a if_clauses if_else st =
     (if if_clauses = [] then (Inl assertion_failed, st)
      else bindR (specialize_If_clauses spec (with_symbol_target ctx) [] if_clauses if_else st)
        (\<lambda>found st.
          let clauses = fst found; else_clause = snd found;
              numclauses = length clauses + 1;
              values = map (\<lambda>c. snd (snd c)) clauses @ [snd else_clause]
          in bindR (specialize_jobs n spec ctx values st)
            (\<lambda>values st.
              case merge_value_types ctx st nullptr values of
                Inl e \<Rightarrow> (Inl e, st)
              | Inr rtype \<Rightarrow>
                  (let else_clause = (fst else_clause, last values);
                       clauses = map (\<lambda>(c, v). (fst c, fst (snd c), v)) (zip clauses values)
                   in if clauses = [] then (Inr (snd else_clause), st)
                      else (Inr (If a (transform_return_type ctx rtype) clauses else_clause), st)))))"

subsection \<open>Calls\<close>

definition bindE :: "error + 'a \<Rightarrow> ('a \<Rightarrow> error + 'b) \<Rightarrow> error + 'b" where
  "bindE r f = (case r of Inl e \<Rightarrow> Inl e | Inr x \<Rightarrow> f x)"

text \<open>
  Modelled from the spec: storage-type normalization. A typename stands for its storage
  type and fails while it is opaque; an arguments type is stored as the tuple of its
  elements; every other type is its own storage type.
\<close>

fun storage_type :: "ty \<Rightarrow> error + ty" where
  "storage_type (TypenameType n s) =
     (if s = nullptr then Inl (error_opaque_type (TypenameType n s)) else Inr s)"
| "storage_type (ArgumentsType ts) = Inr (TupleType ts)"
| "storage_type T = Inr T"

definition canonical_typekind :: "TypeKind \<Rightarrow> TypeKind" where
  "canonical_typekind k = (if k = TK_Real then TK_Integer else k)"

text \<open>
  Modelled from the spec: \<^verbatim>\<open>checkargs<MIN, MAX>\<close> (the arity column of the rule table; no
  upper bound is \<open>None\<close>) and \<^verbatim>\<open>verify_kind<TK_Pointer>\<close> of \<^verbatim>\<open>verify_tools.inc\<close>.
\<close>

definition checkargs :: "nat \<Rightarrow> nat option \<Rightarrow> nat \<Rightarrow> error + unit" where
  "checkargs mincount maxcount argcount =
     (if argcount < mincount \<or> (case maxcount of None \<Rightarrow> False | Some m \<Rightarrow> m < argcount)
      then Inl (error_argument_count mincount maxcount argcount) else Inr ())"

definition verify_kind_Pointer :: "ty \<Rightarrow> error + unit" where
  "verify_kind_Pointer T =
     (if kind T = TK_Pointer then Inr ()
      else Inl (location_error [Str ''value of kind pointer expected, got '', Ty T]))"

fun verify_readable :: "ty \<Rightarrow> error + unit" where
  "verify_readable (PointerType e rd wr c) =
     (if \<not> rd then
        Inl (location_error [Str ''can not load value from address of type '',
               Ty (PointerType e rd wr c), Str '' because the target is non-readable''])
      else Inr ())"
| "verify_readable T = Inl assertion_failed"

fun verify_writable :: "ty \<Rightarrow> error + unit" where
  "verify_writable (PointerType e rd wr c) =
     (if \<not> wr then
        Inl (location_error [Str ''can not store value at address of type '',
               Ty (PointerType e rd wr c), Str '' because the target is non-writable''])
      else Inr ())"
| "verify_writable T = Inl assertion_failed"

text \<open>Modelled from the spec: the element type and the storage class of a pointer type.\<close>

fun element_type :: "ty \<Rightarrow> ty" where
  "element_type (PointerType e rd wr c) = e"
| "element_type T = nullptr"

fun storage_class :: "ty \<Rightarrow> symbol" where
  "storage_class (PointerType e rd wr c) = c"
| "storage_class T = SYM_Unnamed"

text \<open>
  \<^verbatim>\<open>extract_constant<T>\<close> followed by \<^verbatim>\<open>verify\<close> of the constant's type and the cast of its
  payload.
\<close>

fun extract_type_constant :: "val \<Rightarrow> error + ty" where
  "extract_type_constant (ConstPointer a p) =
     bindE (verify (ptr_type p) TYPE_Type)
       (\<lambda>u. case p of PtrType T \<Rightarrow> Inr T | _ \<Rightarrow> Inl assertion_failed)"
| "extract_type_constant v = Inl (error_constant_expected v)"

fun extract_closure_constant :: "val \<Rightarrow> error + val \<times> nat option" where
  "extract_closure_constant (ConstPointer a p) =
     bindE (verify (ptr_type p) TYPE_Closure)
       (\<lambda>u. case p of PtrClosure func fr \<Rightarrow> Inr (func, fr) | _ \<Rightarrow> Inl assertion_failed)"
| "extract_closure_constant v = Inl (error_constant_expected v)"

fun extract_astmacro_constant :: "val \<Rightarrow> error + nat" where
  "extract_astmacro_constant (ConstPointer a p) =
     bindE (verify (ptr_type p) TYPE_ASTMacro)
       (\<lambda>u. case p of PtrASTMacro m \<Rightarrow> Inr m | _ \<Rightarrow> Inl assertion_failed)"
| "extract_astmacro_constant v = Inl (error_constant_expected v)"

fun extract_builtin_constant :: "externals \<Rightarrow> val \<Rightarrow> error + Builtin" where
  "extract_builtin_constant ext (ConstInt a T x) =
     bindE (verify T TYPE_Builtin) (\<lambda>u. Inr (known_symbol ext x))"
| "extract_builtin_constant ext v = Inl (error_constant_expected v)"

text \<open>\<^verbatim>\<open>RETARGTYPES(...)\<close>: the typed call that a builtin rule returns.\<close>

definition RETARGTYPES :: "anchor \<Rightarrow> val \<Rightarrow> val list \<Rightarrow> ty list \<Rightarrow> error + val" where
  "RETARGTYPES a callee values ts = Inr (Call a (arguments_type ts) callee values)"

text \<open>
  The \<^verbatim>\<open>switch\<close> over the builtin. The cases of \<open>Dump\<close> (whose printing is left out),
  \<open>Undef\<close>, \<open>TypeOf\<close>, \<open>Bitcast\<close>, the loads, the stores and \<open>Free\<close> are modelled; every
  other case is the parameter \<open>builtin_rule\<close>. The arguments are read in order
  (\<^verbatim>\<open>values[argn++]\<close>), which \<^verbatim>\<open>CHECKARGS\<close> has made sure exist.
\<close>

fun specialize_builtin ::
  "externals \<Rightarrow> state \<Rightarrow> anchor \<Rightarrow> val \<Rightarrow> val list \<Rightarrow> Builtin \<Rightarrow> error + val" where
  "specialize_builtin ext st a callee values FN_Dump = Inr (build_argument_list st a values)"
| "specialize_builtin ext st a callee values FN_Undef =
     bindE (checkargs 1 (Some 1) (length values))
       (\<lambda>u. bindE (extract_type_constant (values ! 0))
         (\<lambda>T. RETARGTYPES a callee values [T]))"
| "specialize_builtin ext st a callee values FN_TypeOf =
     bindE (checkargs 1 (Some 1) (length values))
       (\<lambda>u. Inr (ConstPointer a (PtrType (get_type st (values ! 0)))))"
| "specialize_builtin ext st a callee values FN_Bitcast =
     bindE (checkargs 2 (Some 2) (length values))
       (\<lambda>u. let SrcT = get_type st (values ! 0)
             in bindE (extract_type_constant (values ! 1))
               (\<lambda>DestT.
                 if SrcT = DestT then Inr (values ! 0)
                 else bindE (storage_type SrcT)
                   (\<lambda>SSrcT. bindE (storage_type DestT)
                     (\<lambda>SDestT.
                       if canonical_typekind (kind SSrcT) \<noteq> canonical_typekind (kind SDestT) then
                         Inl (location_error [Str ''can not bitcast value of type '', Ty SrcT,
                                Str '' to type '', Ty DestT,
                                Str '' because storage types are not of compatible category''])
                       else if SSrcT \<noteq> SDestT
                               \<and> kind SDestT \<in> {TK_Array, TK_Tuple, TK_Union} then
                         Inl (location_error [Str ''can not bitcast value of type '', Ty SrcT,
                                Str '' to type '', Ty DestT,
                                Str '' with aggregate storage type '', Ty SDestT])
                       else RETARGTYPES a callee values [DestT]))))"
| "specialize_builtin ext st a callee values FN_VolatileLoad =
     bindE (checkargs 1 (Some 1) (length values))
       (\<lambda>u. bindE (storage_type (get_type st (values ! 0)))
         (\<lambda>T. bindE (verify_kind_Pointer T)
           (\<lambda>u. bindE (verify_readable T)
             (\<lambda>u. RETARGTYPES a callee values [element_type T]))))"
| "specialize_builtin ext st a callee values FN_Load =
     bindE (checkargs 1 (Some 1) (length values))
       (\<lambda>u. bindE (storage_type (get_type st (values ! 0)))
         (\<lambda>T. bindE (verify_kind_Pointer T)
           (\<lambda>u. bindE (verify_readable T)
             (\<lambda>u. RETARGTYPES a callee values [element_type T]))))"
| "specialize_builtin ext st a callee values FN_VolatileStore =
     bindE (checkargs 2 (Some 2) (length values))
       (\<lambda>u. bindE (storage_type (get_type st (values ! 0)))
         (\<lambda>ElemT. bindE (storage_type (get_type st (values ! 1)))
           (\<lambda>DestT. bindE (verify_kind_Pointer DestT)
             (\<lambda>u. bindE (verify_writable DestT)
               (\<lambda>u. bindE (storage_type (element_type DestT))
                 (\<lambda>ST. bindE (verify ST ElemT)
                   (\<lambda>u. RETARGTYPES a callee values [])))))))"
| "specialize_builtin ext st a callee values FN_Store =
     bindE (checkargs 2 (Some 2) (length values))
       (\<lambda>u. bindE (storage_type (get_type st (values ! 0)))
         (\<lambda>ElemT. bindE (storage_type (get_type st (values ! 1)))
           (\<lambda>DestT. bindE (verify_kind_Pointer DestT)
             (\<lambda>u. bindE (verify_writable DestT)
               (\<lambda>u. bindE (storage_type (element_type DestT))
                 (\<lambda>ST. bindE (verify ST ElemT)
                   (\<lambda>u. RETARGTYPES a callee values [])))))))"
| "specialize_builtin ext st a callee values FN_Free =
     bindE (checkargs 1 (Some 1) (length values))
       (\<lambda>u. bindE (storage_type (get_type st (values ! 0)))
         (\<lambda>T. bindE (verify_writable T)
           (\<lambda>u. if storage_class T \<noteq> SYM_Unnamed then
                   Inl (location_error [Str ''pointer is not a heap pointer''])
                 else RETARGTYPES a callee values [])))"
| "specialize_builtin ext st a callee values (FN_Other b) = builtin_rule ext b st a callee values"

text \<open>
  Modelled from the spec: "pointer types whose element types match with compatible flags
  and compatible storage classes (an unnamed destination accepts any source class;
  otherwise equality)". A destination may lack a capability the source has, not gain one.
\<close>

definition pointer_flags_compatible :: "bool \<times> bool \<Rightarrow> bool \<times> bool \<Rightarrow> bool" where
  "pointer_flags_compatible dest src \<longleftrightarrow>
     (if fst dest then fst src else True) \<and> (if snd dest then snd src else True)"

definition pointer_storage_classes_compatible :: "symbol \<Rightarrow> symbol \<Rightarrow> bool" where
  "pointer_storage_classes_compatible dest src \<longleftrightarrow> dest = SYM_Unnamed \<or> dest = src"

text \<open>The loop that checks the arguments against the signature of a function pointer.\<close>

fun verify_function_argument_signature :: "state \<Rightarrow> val list \<Rightarrow> ty list \<Rightarrow> error + unit" where
  "verify_function_argument_signature st (v # vs) (Tb # Ts) =
     (let Ta = get_type st v in
      if Ta = Tb then verify_function_argument_signature st vs Ts
      else bindE (storage_type Ta)
        (\<lambda>Ta. bindE (storage_type Tb)
          (\<lambda>Tb. case (Ta, Tb) of
              (PointerType ea ra wa ca, PointerType eb rb wb cb) \<Rightarrow>
                if ea = eb \<and> pointer_flags_compatible (rb, wb) (ra, wa)
                     \<and> pointer_storage_classes_compatible cb ca
                then verify_function_argument_signature st vs Ts
                else Inl (error_argument_type_mismatch Tb Ta)
            | _ \<Rightarrow> Inl (error_argument_type_mismatch Tb Ta))))"
| "verify_function_argument_signature st vs Ts = Inr ()"

text \<open>
  The end of \<open>specialize_call_interior\<close>, from \<^verbatim>\<open>if (!is_function_pointer(T))\<close> on: the call
  of a function pointer of type \<open>T\<close>.
\<close>

definition call_function_pointer ::
  "ASTContext \<Rightarrow> anchor \<Rightarrow> val \<Rightarrow> val list \<Rightarrow> ty \<Rightarrow> state \<Rightarrow> val result" where
  "call_function_pointer ctx a callee values T st =
     (if \<not> is_function_pointer T then (Inl (error_invalid_call_type callee), st)
      else
        (let numargs = length (ft_argument_types T) in
         if length values \<noteq> numargs then
           (Inl (error_argument_count_mismatch numargs (length values)), st)
         else
           (case verify_function_argument_signature st values (ft_argument_types T) of
              Inl e \<Rightarrow> (Inl e, st)
            | Inr u \<Rightarrow>
                (let newcall = Call a (ft_return_type T) callee values in
                 if has_exception T then
                   (if \<not> ctx_frame ctx < length (funs st) then (Inl invalid_pointer, st)
                    else
                      (case merge_return_type (except_type (funs st ! ctx_frame ctx))
                              (ft_except_type T) of
                         Inl e \<Rightarrow> (Inl e, st)
                       | Inr E \<Rightarrow>
                           (Inr newcall,
                            update_fun (ctx_frame ctx) (\<lambda>fn. fn\<lparr>except_type := E\<rparr>) st)))
                 else (Inr newcall, st)))))"

text \<open>
  \<open>specialize_inline\<close>: the body of an inline template, specialized in a function object of
  its own that is not cached. The error trace is not part of the model.
\<close>

definition specialize_inline ::
  "externals \<Rightarrow> spec \<Rightarrow> ASTContext \<Rightarrow> nat option \<Rightarrow> val \<Rightarrow> val list \<Rightarrow> state \<Rightarrow> val result" where
  "specialize_inline ext spec ctx fr func nodes st =
     (case func of
        Template a tid name params v inl sc \<Rightarrow>
          (let fn = length (funs st);
               st = st\<lparr>funs := funs st @
                      [(Function_from a name (Some v))\<lparr>original := Some func, frame := fr\<rparr>]\<rparr>;
               subctx = \<lparr>ctx_frame = fn, target = target ctx, loop = None, ctx_try = None\<rparr>
           in bindR (specialize_bind_specialized_arguments subctx params nodes True st)
             (\<lambda>out st. bindR (spec subctx v st)
               (\<lambda>result_value st.
                 if fst out \<noteq> [] then
                   (let rtype = transform_return_type subctx (get_type st result_value);
                        newlet = Let a empty_arguments_type (fst out) (snd out);
                        block = canonicalize ext (Block a rtype [newlet] result_value)
                    in (Inr block, update_fun fn (\<lambda>f. f\<lparr>f_value := Some block\<rparr>) st))
                 else
                   (Inr result_value, update_fun fn (\<lambda>f. f\<lparr>f_value := Some result_value\<rparr>) st))))
      | _ \<Rightarrow> (Inl assertion_failed, st))"

text \<open>
  \<open>specialize_call_interior\<close>, for the call at anchor \<open>a\<close> of \<open>callee\<close> with \<open>args\<close>. The
  bound \<open>n\<close> is the one of the scheduler.
\<close>

definition specialize_call_interior ::
  "externals \<Rightarrow> nat \<Rightarrow> spec \<Rightarrow> ASTContext \<Rightarrow> anchor \<Rightarrow> val \<Rightarrow> val list \<Rightarrow> state \<Rightarrow> val result" where
  "specialize_call_interior ext n spec ctx a call_callee call_args st =
     bindR (spec (with_symbol_target ctx) call_callee st)
       (\<lambda>callee st. bindR (specialize_arguments spec ctx call_args st)
         (\<lambda>values st.
           let T = get_type st callee in
           if T = TYPE_Closure then
             (case extract_closure_constant callee of
                Inl e \<Rightarrow> (Inl e, st)
              | Inr cl \<Rightarrow>
                  if template_is_inline (fst cl) then
                    specialize_inline ext spec ctx (snd cl) (fst cl) values st
                  else
                    (let types = map (get_type st) values
                     in bindR (specialize_function spec (snd cl) (fst cl) types st)
                       (\<lambda>f st.
                         if \<not> f < length (funs st) then (Inl invalid_pointer, st)
                         else if complete (funs st ! f) then
                           call_function_pointer ctx a (Function f) values
                             (get_type st (Function f)) st
                         else if return_type (funs st ! f) \<noteq> nullptr then
                           call_function_pointer ctx a (Function f) values
                             (get_function_type (funs st ! f)) st
                         else bindR (wait_for_return_type n spec f st)
                           (\<lambda>ok st.
                             if ok then
                               call_function_pointer ctx a (Function f) values
                                 (get_function_type (funs st ! f)) st
                             else (Inl error_untyped_recursive_call, st)))))
           else if T = TYPE_ASTMacro then
             (case extract_astmacro_constant callee of
                Inl e \<Rightarrow> (Inl e, st)
              | Inr fptr \<Rightarrow>
                  (case call_astmacro ext fptr values of
                     Inl e \<Rightarrow> (Inl e, st)
                   | Inr v \<Rightarrow> spec ctx v st))
           else if T = TYPE_Builtin then
             (case extract_builtin_constant ext callee of
                Inl e \<Rightarrow> (Inl e, st)
              | Inr b \<Rightarrow> (specialize_builtin ext st a callee values b, st))
           else call_function_pointer ctx a callee values T st))"

text \<open>\<open>specialize_Call\<close> adds the call to the error trace, which is not part of the model.\<close>

definition specialize_Call ::
  "externals \<Rightarrow> nat \<Rightarrow> spec \<Rightarrow> ASTContext \<Rightarrow> anchor \<Rightarrow> val \<Rightarrow> val list \<Rightarrow> state \<Rightarrow> val result" where
  "specialize_Call ext n spec ctx a callee args st =
     specialize_call_interior ext n spec ctx a callee args st"

subsection \<open>The dispatch\<close>

text \<open>The \<^verbatim>\<open>switch(node->kind())\<close> of \<open>specialize\<close>.\<close>

fun specialize_kind ::
  "externals \<Rightarrow> nat \<Rightarrow> spec \<Rightarrow> ASTContext \<Rightarrow> val \<Rightarrow> state \<Rightarrow> val result" where
  "specialize_kind ext n spec ctx (Template a i nm ps b inl sc) st =
     specialize_Template ctx (Template a i nm ps b inl sc) st"
| "specialize_kind ext n spec ctx (Function f) st = (Inr (Function f), st)"
| "specialize_kind ext n spec ctx (SymbolValue s) st = specialize_SymbolValue ctx s st"
| "specialize_kind ext n spec ctx (ConstInt a T v) st = (Inr (ConstInt a T v), st)"
| "specialize_kind ext n spec ctx (ConstReal a T v) st = (Inr (ConstReal a T v), st)"
| "specialize_kind ext n spec ctx (ConstPointer a p) st = (Inr (ConstPointer a p), st)"
| "specialize_kind ext n spec ctx (ConstTuple a T vs) st = (Inr (ConstTuple a T vs), st)"
| "specialize_kind ext n spec ctx (ConstArray a T vs) st = (Inr (ConstArray a T vs), st)"
| "specialize_kind ext n spec ctx (ConstVector a T vs) st = (Inr (ConstVector a T vs), st)"
| "specialize_kind ext n spec ctx (Extern a T nm) st = (Inr (Extern a T nm), st)"
| "specialize_kind ext n spec ctx (ArgumentList a T vs) st = specialize_ArgumentList spec ctx a vs st"
| "specialize_kind ext n spec ctx (ExtractArgument a T v i) st =
     specialize_ExtractArgument spec ctx v i st"
| "specialize_kind ext n spec ctx (Call a T c as) st = specialize_Call ext n spec ctx a c as st"
| "specialize_kind ext n spec ctx (Let a T ps as) st = specialize_Let spec ctx a ps as st"
| "specialize_kind ext n spec ctx (Loop a T ps as v rt) st = specialize_Loop spec ctx a ps as v st"
| "specialize_kind ext n spec ctx (If a T cs e) st = specialize_If n spec ctx a cs e st"
| "specialize_kind ext n spec ctx (Break a T v) st = specialize_Break spec ctx a v st"
| "specialize_kind ext n spec ctx (Repeat a T vs) st = specialize_Repeat spec ctx a vs st"
| "specialize_kind ext n spec ctx (Return a T v) st = specialize_Return spec ctx a v st"
| "specialize_kind ext n spec ctx (Raise a T v) st = specialize_Raise spec ctx a v st"
| "specialize_kind ext n spec ctx (Try a T b e) st = specialize_Try spec ctx b e st"
| "specialize_kind ext n spec ctx (Block a T b v) st = specialize_Block ext spec ctx a b v st"
| "specialize_kind ext n spec ctx (Keyed a T k v) st = specialize_Keyed spec ctx a k v st"
| "specialize_kind ext n spec ctx (SyntaxExtend a T f e) st =
     specialize_SyntaxExtend ext spec ctx (SyntaxExtend a T f e) f st"

text \<open>
  The body of \<^verbatim>\<open>specialize(const ASTContext &ctx, Value *node)\<close>, its recursive calls going
  to \<open>spec\<close>.
\<close>

definition specialize_node ::
  "externals \<Rightarrow> nat \<Rightarrow> spec \<Rightarrow> ASTContext \<Rightarrow> val \<Rightarrow> state \<Rightarrow> val result" where
  "specialize_node ext n spec ctx node st =
     (let result = resolve st (ctx_frame ctx) node in
      if result = None \<and> is_typed st node then (Inr node, st)
      else
        bindR (case result of
                 Some r \<Rightarrow> (Inr r, st)
               | None \<Rightarrow>
                   (if is_typed st node then (Inr node, st)
                    else specialize_kind ext n spec ctx node st))
          (\<lambda>result st.
            if target ctx = EvalTarget_Return \<and> is_returning (get_type st result) then
              make_return ctx (anchor_of st result) result st
            else (Inr result, st)))"

text \<open>
  \<open>specialize\<close>: the recursion of the specializer, closed. The first argument bounds the
  depth of the recursion (and the number of jobs one call of the scheduler runs); a
  computation that needs more ends with \<open>out_of_fuel\<close>.
\<close>

fun specialize :: "externals \<Rightarrow> nat \<Rightarrow> ASTContext \<Rightarrow> val \<Rightarrow> state \<Rightarrow> val result" where
  "specialize ext 0 ctx node st = (Inl out_of_fuel, st)"
| "specialize ext (Suc n) ctx node st = specialize_node ext n (specialize ext n) ctx node st"

subsection \<open>The state before anything is specialized\<close>

definition initial_state :: state where
  "initial_state = \<lparr>funs = [], loops = [], functions_cache = [], jobs = [], slots = [],
     next_slot = 0, next_sym = 0\<rparr>"

subsection \<open>Examples: a choice of the external collaborators, and a top-level frame\<close>

definition sample_known_symbol :: "nat \<Rightarrow> Builtin" where
  "sample_known_symbol x =
     (if x = 0 then FN_Dump else if x = 1 then FN_Undef else if x = 2 then FN_TypeOf
      else if x = 3 then FN_Bitcast else if x = 4 then FN_VolatileLoad
      else if x = 5 then FN_Load else if x = 6 then FN_VolatileStore
      else if x = 7 then FN_Store else if x = 8 then FN_Free else FN_Other x)"

definition sample_externals :: externals where
  "sample_externals =
     \<lparr>canonicalize = (\<lambda>b. b),
      call_astmacro = (\<lambda>m vs. Inl (external_error 0)),
      builtin_rule = (\<lambda>b st a c vs. Inl (error_cannot_type_builtin (FN_Other b))),
      known_symbol = sample_known_symbol,
      syntax_extend = (\<lambda>st fn sx. Inl (external_error 1))\<rparr>"

text \<open>
  The template of \<^verbatim>\<open>fn f () (f)\<close>: a function that is not inline, has no parameter and
  whose body calls the symbol \<open>f\<close>.
\<close>

definition recursive_template :: val where
  "recursive_template =
     Template 0 10 ''f'' [] (Call 5 nullptr (SymbolValue (Sym 4 1 ''f'' nullptr False)) [])
       False None"

text \<open>
  A state with one function object, the top-level frame (it has no template), in which
  the symbol \<open>f\<close> is bound to the closure of \<open>recursive_template\<close> over this frame.
\<close>

definition top_state :: state where
  "top_state =
     initial_state
       \<lparr>funs := [(Function_from 0 ''top'' None)
                   \<lparr>bindings := [(1, ConstPointer 0 (PtrClosure recursive_template (Some 0)))]\<rparr>],
        next_sym := 100\<rparr>"

definition top_context :: "EvalTarget \<Rightarrow> ASTContext" where
  "top_context t = \<lparr>ctx_frame = 0, target = t, loop = None, ctx_try = None\<rparr>"

subsection \<open>Notions used in the statements\<close>

text \<open>
  A variadic parameter at position \<open>k\<close> that is not the last one; and the agreement of
  the typed parameters before position \<open>k\<close> with the types supplied for them (a parameter
  beyond the supplied types is given \<open>Nothing\<close>).
\<close>

definition non_final_variadic :: "symv list \<Rightarrow> nat \<Rightarrow> bool" where
  "non_final_variadic params k \<longleftrightarrow> k + 1 < length params \<and> is_variadic (params ! k)"

definition typed_params_agree :: "symv list \<Rightarrow> ty list \<Rightarrow> nat \<Rightarrow> bool" where
  "typed_params_agree params types k \<longleftrightarrow>
     (\<forall>j<k. j < length params \<longrightarrow> \<not> is_variadic (params ! j) \<longrightarrow>
        sym_type (params ! j) \<noteq> nullptr \<longrightarrow>
        sym_type (params ! j) = (if j < length types then types ! j else TYPE_Nothing))"

text \<open>
  The arguments before a position: each of them, in turn, specializes to a value of
  returning type (of which, for a multi-value, the first element can be taken). The
  result is the state then reached.
\<close>

fun arguments_before :: "spec \<Rightarrow> ASTContext \<Rightarrow> val list \<Rightarrow> state \<Rightarrow> state option" where
  "arguments_before spec subctx [] st = Some st"
| "arguments_before spec subctx (v # vs) st =
     (case spec subctx v st of
        (Inl e, st1) \<Rightarrow> None
      | (Inr x, st1) \<Rightarrow>
          (if is_returning (get_type st1 x) \<and> extract_argument st1 x 0 \<noteq> Inl invalid_pointer
           then arguments_before spec subctx vs st1 else None))"

text \<open>
  The static resolution of the conditions, in the words of the spec (4.7), for clauses
  none of which is constantly true: each condition, in turn, specializes to a value of
  type \<open>Bool\<close>; a clause whose condition is the constant false is dropped; every other
  clause survives, with its specialized condition. The result is the surviving clauses
  and the state then reached.
\<close>

fun surviving_clauses ::
  "spec \<Rightarrow> ASTContext \<Rightarrow> (anchor \<times> val \<times> val) list \<Rightarrow> state
   \<Rightarrow> ((anchor \<times> val \<times> val) list \<times> state) option" where
  "surviving_clauses spec subctx [] st = Some ([], st)"
| "surviving_clauses spec subctx ((a, cond, v) # rest) st =
     (case spec subctx cond st of
        (Inl e, st1) \<Rightarrow> None
      | (Inr newcond, st1) \<Rightarrow>
          (if get_type st1 newcond \<noteq> TYPE_Bool then None
           else
             (case newcond of
                ConstInt ca cT cv \<Rightarrow>
                  (if cv = 0 then surviving_clauses spec subctx rest st1 else None)
              | _ \<Rightarrow>
                  (case surviving_clauses spec subctx rest st1 of
                     None \<Rightarrow> None
                   | Some (kept, st2) \<Rightarrow> Some ((a, newcond, v) # kept, st2)))))"

fun is_ConstInt :: "val \<Rightarrow> bool" where
  "is_ConstInt (ConstInt a T v) = True"
| "is_ConstInt node = False"

text \<open>A message includes a text when one of its pieces contains it.\<close>

definition message_includes :: "msg list \<Rightarrow> string \<Rightarrow> bool" where
  "message_includes m s \<longleftrightarrow> (\<exists>t pre post. Str t \<in> set m \<and> t = pre @ s @ post)"

section \<open>Properties\<close>

subsection \<open>Joining return types\<close>

lemma merge_return_type_nonnull:
  "merge_return_type T1 T2 = Inr T \<Longrightarrow> T \<noteq> nullptr"
  by (auto simp: merge_return_type_def split: if_splits)

text \<open>
  C6, as stated, fails: the second operand of \<open>merge_return_type\<close> must not be null
  (\<^verbatim>\<open>assert(T2)\<close>), so the merge of a type with null succeeds only with null on the left.
\<close>

theorem merge_return_type_null_counterexample:
  "merge_return_type nullptr TYPE_I32 = Inr TYPE_I32
   \<and> merge_return_type TYPE_I32 nullptr = Inl assertion_failed
   \<and> merge_return_type TYPE_I32 nullptr \<noteq> merge_return_type nullptr TYPE_I32"
  by (simp add: merge_return_type_def TYPE_I32_def)

text \<open>
  C6, amended: on operands that are not null the outcome of \<open>merge_return_type\<close> (the merged
  type, or failure) is commutative and associative; the merge fails exactly when both
  operands are returning types that differ, and then with \<open>cannot_merge_expression_types\<close>
  of the two operands; equal operands give the operand, exactly one \<open>NoReturn\<close> gives the
  other operand; and a null first operand gives the second operand.
\<close>

theorem merge_return_type_join:
  assumes "T1 \<noteq> nullptr" and "T2 \<noteq> nullptr" and "T3 \<noteq> nullptr"
  shows "outcome (merge_return_type T1 T2) = outcome (merge_return_type T2 T1)
    \<and> outcome (then_merge (merge_return_type T1 T2) (\<lambda>T. merge_return_type T T3))
        = outcome (then_merge (merge_return_type T2 T3) (\<lambda>T. merge_return_type T1 T))
    \<and> ((\<exists>e. merge_return_type T1 T2 = Inl e) \<longleftrightarrow>
          is_returning T1 \<and> is_returning T2 \<and> T1 \<noteq> T2)
    \<and> (\<forall>e. merge_return_type T1 T2 = Inl e \<longrightarrow>
          e = error_cannot_merge_expression_types T1 T2)
    \<and> merge_return_type T1 T1 = Inr T1
    \<and> (T1 = TYPE_NoReturn \<longrightarrow> merge_return_type T1 T2 = Inr T2)
    \<and> (T2 = TYPE_NoReturn \<longrightarrow> merge_return_type T1 T2 = Inr T1)
    \<and> merge_return_type nullptr T2 = Inr T2"
  using assms
  by (auto simp: merge_return_type_def outcome_def then_merge_def is_returning_def)

theorem merge_return_type_join_witness:
  "outcome (merge_return_type TYPE_I32 TYPE_NoReturn) = Some TYPE_I32
   \<and> outcome (merge_return_type TYPE_NoReturn TYPE_I32) = Some TYPE_I32
   \<and> outcome (then_merge (merge_return_type TYPE_I32 TYPE_NoReturn)
        (\<lambda>T. merge_return_type T TYPE_F32)) = None
   \<and> outcome (then_merge (merge_return_type TYPE_NoReturn TYPE_F32)
        (\<lambda>T. merge_return_type TYPE_I32 T)) = None"
  using merge_return_type_join [of TYPE_I32 TYPE_NoReturn TYPE_F32]
  by (simp add: merge_return_type_def outcome_def then_merge_def is_returning_def
      TYPE_I32_def TYPE_F32_def)

subsection \<open>Single-element argument lists\<close>

text \<open>
  C7, as stated, fails: a value whose type is an arguments type is not what
  \<open>extract_argument\<close> returns for index 0; a call with two results is projected.
\<close>

theorem extract_argument_single_counterexample:
  "extract_argument initial_state
     (build_argument_list initial_state 0
        [Call 7 (ArgumentsType [TYPE_I32, TYPE_I32]) (Extern 1 TYPE_Unknown ''f'') []]) 0
   = Inr (ExtractArgument 7 TYPE_I32
        (Call 7 (ArgumentsType [TYPE_I32, TYPE_I32]) (Extern 1 TYPE_Unknown ''f'') []) 0)
   \<and> extract_argument initial_state
     (build_argument_list initial_state 0
        [Call 7 (ArgumentsType [TYPE_I32, TYPE_I32]) (Extern 1 TYPE_Unknown ''f'') []]) 0
   \<noteq> Inr (Call 7 (ArgumentsType [TYPE_I32, TYPE_I32]) (Extern 1 TYPE_Unknown ''f'') [])"
  by (simp add: extract_argument_def build_argument_list_def is_returning_def
      type_at_index_or_nothing_def TYPE_I32_def Let_def)

lemma size_member_less: "x \<in> set vs \<Longrightarrow> size x < Suc (size_list size vs)"
  by (induction vs) auto

lemma ArgumentList_not_own_element:
  "i < length vs \<Longrightarrow> vs ! i \<noteq> ArgumentList a T vs"
proof
  assume i: "i < length vs" and e: "vs ! i = ArgumentList a T vs"
  from i have "size (vs ! i) < Suc (size_list size vs)"
    by (intro size_member_less) simp
  with e show False by simp
qed

text \<open>
  C7, amended: \<open>build_argument_list\<close> applied to the one-element sequence \<open>[x]\<close> returns \<open>x\<close>
  itself, for every value \<open>x\<close>; and for a typed \<open>x\<close>, \<open>extract_argument\<close> of it at index 0
  is \<open>x\<close> exactly when the type of \<open>x\<close> is not an arguments type.
\<close>

theorem build_argument_list_single:
  "build_argument_list st a [x] = x
   \<and> (is_typed st x \<longrightarrow>
        (extract_argument st (build_argument_list st a [x]) 0 = Inr x
           \<longleftrightarrow> \<not> is_arguments_type (get_type st x)))"
proof -
  have b: "build_argument_list st a [x] = x"
    by (simp add: build_argument_list_def)
  have "extract_argument st x 0 \<noteq> Inr x" if "is_arguments_type (get_type st x)"
  proof (cases x)
    case (ArgumentList aa T vs)
    with that ArgumentList_not_own_element[of 0 vs aa T] show ?thesis
      by (auto simp: extract_argument_def Let_def is_returning_def none_from_def)
  qed (use that in \<open>auto simp: extract_argument_def Let_def is_returning_def none_from_def\<close>)
  moreover have "extract_argument st x 0 = Inr x" if "\<not> is_arguments_type (get_type st x)"
    using that by (simp add: extract_argument_def Let_def)
  ultimately show ?thesis using b by auto
qed

theorem build_argument_list_single_witness:
  "build_argument_list initial_state 0 [ConstInt 3 TYPE_I32 5] = ConstInt 3 TYPE_I32 5
   \<and> extract_argument initial_state
        (build_argument_list initial_state 0 [ConstInt 3 TYPE_I32 5]) 0
       = Inr (ConstInt 3 TYPE_I32 5)"
  using build_argument_list_single [of initial_state 0 "ConstInt 3 TYPE_I32 5"]
  by (auto simp: is_typed_def TYPE_I32_def)

subsection \<open>Non-returning arguments\<close>

lemma extract_argument_error: "extract_argument st v i = Inl e \<Longrightarrow> e = invalid_pointer"
  by (auto simp: extract_argument_def Let_def split: if_splits val.splits)

lemma extract_arguments_error: "extract_arguments st v js = Inl e \<Longrightarrow> e = invalid_pointer"
  by (induction js arbitrary: e) (auto split: sum.splits dest: extract_argument_error)

lemma extract_argument_not_arguments:
  "\<not> is_arguments_type (get_type st x) \<Longrightarrow> extract_argument st x 0 = Inr x"
  by (simp add: extract_argument_def Let_def)

lemma arguments_before_loop:
  "arguments_before spec subctx pre st = Some si \<Longrightarrow>
   \<exists>outs. specialize_arguments_from spec subctx outargs (pre @ v # post) st
     = specialize_arguments_from spec subctx outs (v # post) si"
proof (induction pre arbitrary: outargs st)
  case Nil
  then show ?case by auto
next
  case (Cons p pre)
  obtain r s1 where sp: "spec subctx p st = (r, s1)" by (cases "spec subctx p st")
  with Cons.prems obtain x where r: "r = Inr x"
    and ret: "is_returning (get_type s1 x)"
    and ex: "extract_argument s1 x 0 \<noteq> Inl invalid_pointer"
    and rest: "arguments_before spec subctx pre s1 = Some si"
    by (cases r) (auto split: if_splits)
  show ?case
  proof (cases "is_arguments_type (get_type s1 x)")
    case True
    from ex obtain y where y: "extract_argument s1 x 0 = Inr y"
      using extract_argument_error by (cases "extract_argument s1 x 0") auto
    from Cons.IH[OF rest, of "outargs @ [y]"] sp r ret True y show ?thesis
      by (simp add: Let_def)
  next
    case False
    from Cons.IH[OF rest, of "outargs @ [x]"] sp r ret False show ?thesis
      by (simp add: Let_def)
  qed
qed

lemma noreturn_at_position:
  assumes "arguments_before spec subctx pre st = Some si"
    and "spec subctx v si = (Inl error_noreturn_not_last_expression, st')
         \<or> (\<exists>x. spec subctx v si = (Inr x, st') \<and> \<not> is_returning (get_type st' x))"
  shows "specialize_arguments_from spec subctx outargs (pre @ v # post) st
     = (Inl error_noreturn_not_last_expression, st')"
proof -
  from arguments_before_loop[OF assms(1)] obtain outs where
    "specialize_arguments_from spec subctx outargs (pre @ v # post) st
     = specialize_arguments_from spec subctx outs (v # post) si" by blast
  with assms(2) show ?thesis by auto
qed

lemma noreturn_position:
  "specialize_arguments_from spec subctx outargs values st
     = (Inl error_noreturn_not_last_expression, st') \<Longrightarrow>
   \<exists>pre v post si. values = pre @ v # post \<and> arguments_before spec subctx pre st = Some si
     \<and> (spec subctx v si = (Inl error_noreturn_not_last_expression, st')
        \<or> (\<exists>x. spec subctx v si = (Inr x, st') \<and> \<not> is_returning (get_type st' x)))"
proof (induction "values" arbitrary: outargs st)
  case Nil
  then show ?case by simp
next
  case (Cons v rest)
  obtain r s1 where sp: "spec subctx v st = (r, s1)" by (cases "spec subctx v st")
  show ?case
  proof (cases r)
    case (Inl e)
    with sp Cons.prems have "spec subctx v st = (Inl error_noreturn_not_last_expression, st')"
      by simp
    then have "v # rest = [] @ v # rest \<and> arguments_before spec subctx [] st = Some st
      \<and> (spec subctx v st = (Inl error_noreturn_not_last_expression, st')
        \<or> (\<exists>x. spec subctx v st = (Inr x, st') \<and> \<not> is_returning (get_type st' x)))"
      by simp
    then show ?thesis by blast
  next
    case (Inr x)
    show ?thesis
    proof (cases "is_returning (get_type s1 x)")
      case False
      with sp Inr Cons.prems have "spec subctx v st = (Inr x, st') \<and> \<not> is_returning (get_type st' x)"
        by auto
      then have "v # rest = [] @ v # rest \<and> arguments_before spec subctx [] st = Some st
        \<and> (spec subctx v st = (Inl error_noreturn_not_last_expression, st')
          \<or> (\<exists>x. spec subctx v st = (Inr x, st') \<and> \<not> is_returning (get_type st' x)))"
        by auto
      then show ?thesis by blast
    next
      case True
      have "\<exists>outs. specialize_arguments_from spec subctx outs rest s1
            = (Inl error_noreturn_not_last_expression, st')
          \<and> extract_argument s1 x 0 \<noteq> Inl invalid_pointer"
        using sp Inr True Cons.prems
        by (auto simp: Let_def extract_argument_not_arguments split: if_splits sum.splits
            dest: extract_arguments_error extract_argument_error)
      then obtain outs where l: "specialize_arguments_from spec subctx outs rest s1
            = (Inl error_noreturn_not_last_expression, st')"
        and ex: "extract_argument s1 x 0 \<noteq> Inl invalid_pointer" by blast
      from Cons.IH[OF l] obtain pre w post si where
        d: "rest = pre @ w # post" and b: "arguments_before spec subctx pre s1 = Some si"
        and e: "spec subctx w si = (Inl error_noreturn_not_last_expression, st')
          \<or> (\<exists>x. spec subctx w si = (Inr x, st') \<and> \<not> is_returning (get_type st' x))"
        by blast
      from sp Inr True ex b have "arguments_before spec subctx (v # pre) st = Some si"
        by simp
      with d e have "v # rest = (v # pre) @ w # post
        \<and> arguments_before spec subctx (v # pre) st = Some si
        \<and> (spec subctx w si = (Inl error_noreturn_not_last_expression, st')
          \<or> (\<exists>x. spec subctx w si = (Inr x, st') \<and> \<not> is_returning (get_type st' x)))"
        by simp
      then show ?thesis by blast
    qed
  qed
qed

text \<open>
  C3, as stated, fails: a non-returning value in the last position is not accepted. In
  the call \<^verbatim>\<open>f(2, return 1)\<close> the last argument specializes to a \<open>Return\<close> node of type
  \<open>NoReturn\<close>, and \<open>specialize_arguments\<close> raises \<open>noreturn_not_last_expression\<close>.
\<close>

theorem specialize_arguments_last_noreturn_counterexample:
  "fst (specialize_arguments (specialize sample_externals 3) (top_context EvalTarget_Symbol)
     [ConstInt 1 TYPE_I32 2, Return 2 nullptr (ConstInt 3 TYPE_I32 1)] top_state)
   = Inl error_noreturn_not_last_expression"
  by code_simp

text \<open>
  C3, amended: \<open>specialize_arguments\<close> fails with \<open>noreturn_not_last_expression\<close> exactly
  when, the arguments before some position having specialized to values of returning
  type, the argument at that position specializes to a value of non-returning type, or its
  specialization fails with this error itself. The position is any position of the
  sequence: a non-returning value in the last position (no argument after it) is rejected
  as well.
\<close>

theorem specialize_arguments_noreturn:
  "(specialize_arguments spec ctx vals st = (Inl error_noreturn_not_last_expression, st')
     \<longleftrightarrow>
     (\<exists>pre v post si. vals = pre @ v # post
        \<and> arguments_before spec (with_symbol_target ctx) pre st = Some si
        \<and> (spec (with_symbol_target ctx) v si = (Inl error_noreturn_not_last_expression, st')
           \<or> (\<exists>x. spec (with_symbol_target ctx) v si = (Inr x, st')
                 \<and> \<not> is_returning (get_type st' x)))))
   \<and> (arguments_before spec (with_symbol_target ctx) pre st = Some si
        \<and> spec (with_symbol_target ctx) v si = (Inr x, st')
        \<and> \<not> is_returning (get_type st' x) \<longrightarrow>
      specialize_arguments spec ctx (pre @ [v]) st
        = (Inl error_noreturn_not_last_expression, st'))"
proof (intro conjI iffI impI)
  assume "specialize_arguments spec ctx vals st = (Inl error_noreturn_not_last_expression, st')"
  then show "\<exists>pre v post si. vals = pre @ v # post
        \<and> arguments_before spec (with_symbol_target ctx) pre st = Some si
        \<and> (spec (with_symbol_target ctx) v si = (Inl error_noreturn_not_last_expression, st')
           \<or> (\<exists>x. spec (with_symbol_target ctx) v si = (Inr x, st')
                 \<and> \<not> is_returning (get_type st' x)))"
    unfolding specialize_arguments_def by (rule noreturn_position)
next
  assume "\<exists>pre v post si. vals = pre @ v # post
        \<and> arguments_before spec (with_symbol_target ctx) pre st = Some si
        \<and> (spec (with_symbol_target ctx) v si = (Inl error_noreturn_not_last_expression, st')
           \<or> (\<exists>x. spec (with_symbol_target ctx) v si = (Inr x, st')
                 \<and> \<not> is_returning (get_type st' x)))"
  then show "specialize_arguments spec ctx vals st
      = (Inl error_noreturn_not_last_expression, st')"
    unfolding specialize_arguments_def using noreturn_at_position by blast
next
  assume "arguments_before spec (with_symbol_target ctx) pre st = Some si
        \<and> spec (with_symbol_target ctx) v si = (Inr x, st')
        \<and> \<not> is_returning (get_type st' x)"
  then show "specialize_arguments spec ctx (pre @ [v]) st
        = (Inl error_noreturn_not_last_expression, st')"
    unfolding specialize_arguments_def using noreturn_at_position[where post = "[]"] by blast
qed

theorem specialize_arguments_noreturn_witness:
  "specialize_arguments (specialize sample_externals 3) (top_context EvalTarget_Symbol)
     [ConstInt 1 TYPE_I32 2, Return 2 nullptr (ConstInt 3 TYPE_I32 1)] top_state
   = (Inl error_noreturn_not_last_expression,
      update_fun 0 (\<lambda>fn. fn\<lparr>return_type := TYPE_I32\<rparr>) top_state)
   \<and> specialize_arguments (specialize sample_externals 3) (top_context EvalTarget_Symbol)
     [ConstInt 1 TYPE_I32 2, Return 2 nullptr (ConstInt 3 TYPE_I32 1), ConstInt 4 TYPE_I32 5]
     top_state
   = (Inl error_noreturn_not_last_expression,
      update_fun 0 (\<lambda>fn. fn\<lparr>return_type := TYPE_I32\<rparr>) top_state)"
proof -
  let ?spec = "specialize sample_externals 3"
  let ?ctx = "top_context EvalTarget_Symbol"
  let ?c = "ConstInt 1 TYPE_I32 2"
  let ?r = "Return 2 nullptr (ConstInt 3 TYPE_I32 1)"
  let ?x = "Return 2 TYPE_NoReturn (ConstInt 3 TYPE_I32 1)"
  let ?st = "update_fun 0 (\<lambda>fn. fn\<lparr>return_type := TYPE_I32\<rparr>) top_state"
  have b: "arguments_before ?spec (with_symbol_target ?ctx) [?c] top_state = Some top_state"
    by code_simp
  have s: "?spec (with_symbol_target ?ctx) ?r top_state = (Inr ?x, ?st)"
    by code_simp
  have n: "\<not> is_returning (get_type ?st ?x)"
    by code_simp
  from specialize_arguments_noreturn
    [where spec = ?spec and ctx = ?ctx and pre = "[?c]" and v = ?r and st = top_state
       and si = top_state and x = ?x and st' = ?st] b s n
  have last: "specialize_arguments ?spec ?ctx ([?c] @ [?r]) top_state
      = (Inl error_noreturn_not_last_expression, ?st)"
    by blast
  have "[?c, ?r, ConstInt 4 TYPE_I32 5] = [?c] @ ?r # [ConstInt 4 TYPE_I32 5]
      \<and> arguments_before ?spec (with_symbol_target ?ctx) [?c] top_state = Some top_state
      \<and> (?spec (with_symbol_target ?ctx) ?r top_state
            = (Inl error_noreturn_not_last_expression, ?st)
          \<or> (\<exists>x. ?spec (with_symbol_target ?ctx) ?r top_state = (Inr x, ?st)
                \<and> \<not> is_returning (get_type ?st x)))"
    using b s n by simp
  then have "\<exists>pre v post si. [?c, ?r, ConstInt 4 TYPE_I32 5] = pre @ v # post
      \<and> arguments_before ?spec (with_symbol_target ?ctx) pre top_state = Some si
      \<and> (?spec (with_symbol_target ?ctx) v si = (Inl error_noreturn_not_last_expression, ?st)
          \<or> (\<exists>x. ?spec (with_symbol_target ?ctx) v si = (Inr x, ?st)
                \<and> \<not> is_returning (get_type ?st x)))"
    by blast
  with specialize_arguments_noreturn
    [where spec = ?spec and ctx = ?ctx and st = top_state and st' = ?st
       and vals = "[?c, ?r, ConstInt 4 TYPE_I32 5]"]
  have mid: "specialize_arguments ?spec ?ctx [?c, ?r, ConstInt 4 TYPE_I32 5] top_state
      = (Inl error_noreturn_not_last_expression, ?st)"
    by blast
  from last mid show ?thesis by simp
qed

subsection \<open>Variadic parameters\<close>

lemma bind_from_variadic:
  "i + length ps = count \<Longrightarrow> k + 1 < length ps \<Longrightarrow> is_variadic (ps ! k) \<Longrightarrow>
   \<exists>st'. specialize_bind_specialized_arguments_from ctx count tmpargs inl i ps out st
     = (Inl error_variadic_symbol_not_in_last_place, st')"
proof (induction ps arbitrary: i k out st)
  case Nil
  then show ?case by simp
next
  case (Cons p rest)
  show ?case
  proof (cases "is_variadic p")
    case True
    with Cons.prems show ?thesis by auto
  next
    case False
    with Cons.prems obtain k' where k: "k = Suc k'" by (cases k) auto
    with Cons.prems have "Suc i + length rest = count" "k' + 1 < length rest" "is_variadic (rest ! k')"
      by auto
    from Cons.IH[OF this] False show ?thesis
      by (cases out) (auto simp: Let_def split: prod.splits)
  qed
qed

lemma bind_from_ok:
  "i + length ps = count \<Longrightarrow> \<forall>k. k + 1 < length ps \<longrightarrow> \<not> is_variadic (ps ! k) \<Longrightarrow>
   \<exists>out' st'. specialize_bind_specialized_arguments_from ctx count tmpargs inl i ps out st
     = (Inr out', st')"
proof (induction ps arbitrary: i out st)
  case Nil
  then show ?case by simp
next
  case (Cons p rest)
  have rest: "\<forall>k. k + 1 < length rest \<longrightarrow> \<not> is_variadic (rest ! k)"
    using Cons.prems(2) by (metis Suc_eq_plus1 Suc_less_eq length_Cons nth_Cons_Suc)
  have i: "Suc i + length rest = count" using Cons.prems by simp
  have v: "is_variadic p \<Longrightarrow> \<not> i + 1 < count"
    using Cons.prems by (cases rest) auto
  show ?case using Cons.IH[OF i rest] v
    by (cases out) (auto simp: Let_def split: prod.splits)
qed


lemma params_variadic:
  "i + length ps = count \<Longrightarrow> k + 1 < length ps \<Longrightarrow> is_variadic (ps ! k) \<Longrightarrow>
   \<forall>j<k. \<not> is_variadic (ps ! j) \<longrightarrow> sym_type (ps ! j) \<noteq> nullptr \<longrightarrow>
      sym_type (ps ! j) = (if i + j < length types then types ! (i + j) else TYPE_Nothing) \<Longrightarrow>
   \<exists>st'. specialize_function_params fn count types i ps st
     = (Inl error_variadic_symbol_not_in_last_place, st')"
proof (induction ps arbitrary: i k st)
  case Nil
  then show ?case by simp
next
  case (Cons p rest)
  show ?case
  proof (cases "is_variadic p")
    case True
    with Cons.prems show ?thesis by auto
  next
    case False
    with Cons.prems obtain k' where k: "k = Suc k'" by (cases k) auto
    have a: "Suc i + length rest = count" "k' + 1 < length rest" "is_variadic (rest ! k')"
      using Cons.prems k by auto
    have b: "\<forall>j<k'. \<not> is_variadic (rest ! j) \<longrightarrow> sym_type (rest ! j) \<noteq> nullptr \<longrightarrow>
      sym_type (rest ! j) = (if Suc i + j < length types then types ! (Suc i + j) else TYPE_Nothing)"
      using Cons.prems(4) k by fastforce
    have c: "sym_type p \<noteq> nullptr \<Longrightarrow>
      sym_type p = (if i < length types then types ! i else TYPE_Nothing)"
      using Cons.prems(4) k False by fastforce
    from Cons.IH[OF a b] False c show ?thesis
      by (auto simp: Let_def verify_def split: prod.splits)
  qed
qed

lemma params_ok:
  "i + length ps = count \<Longrightarrow> \<forall>k. k + 1 < length ps \<longrightarrow> \<not> is_variadic (ps ! k) \<Longrightarrow>
   \<forall>j<length ps. \<not> is_variadic (ps ! j) \<longrightarrow> sym_type (ps ! j) \<noteq> nullptr \<longrightarrow>
      sym_type (ps ! j) = (if i + j < length types then types ! (i + j) else TYPE_Nothing) \<Longrightarrow>
   \<exists>st'. specialize_function_params fn count types i ps st = (Inr (), st')"
proof (induction ps arbitrary: i st)
  case Nil
  then show ?case by simp
next
  case (Cons p rest)
  have rest: "\<forall>k. k + 1 < length rest \<longrightarrow> \<not> is_variadic (rest ! k)"
    using Cons.prems(2) by (metis Suc_eq_plus1 Suc_less_eq length_Cons nth_Cons_Suc)
  have i: "Suc i + length rest = count" using Cons.prems by simp
  have v: "is_variadic p \<Longrightarrow> \<not> i + 1 < count"
    using Cons.prems by (cases rest) auto
  have b: "\<forall>j<length rest. \<not> is_variadic (rest ! j) \<longrightarrow> sym_type (rest ! j) \<noteq> nullptr \<longrightarrow>
      sym_type (rest ! j) = (if Suc i + j < length types then types ! (Suc i + j) else TYPE_Nothing)"
    using Cons.prems(3) by fastforce
  have c: "\<not> is_variadic p \<Longrightarrow> sym_type p \<noteq> nullptr \<Longrightarrow>
      sym_type p = (if i < length types then types ! i else TYPE_Nothing)"
    using Cons.prems(3) by fastforce
  show ?case
  proof (cases "is_variadic p")
    case True
    with v Cons.IH[OF i rest b] show ?thesis
      by (auto simp: Let_def split: prod.splits)
  next
    case False
    show ?thesis
    proof (cases "sym_type p = nullptr")
      case True
      with False Cons.IH[OF i rest b] show ?thesis
        by (auto simp: Let_def split: prod.splits)
    next
      case n: False
      from c[OF False n] have "verify (sym_type p) (if i < length types then types ! i else TYPE_Nothing) = Inr ()"
        by (simp add: verify_def)
      with False n Cons.IH[OF i rest b] show ?thesis
        by (simp add: Let_def split: prod.splits)
    qed
  qed
qed

text \<open>
  C8, amended: binding the parameters of a \<open>Let\<close>, a \<open>Loop\<close> or an inline template
  (\<open>specialize_bind_specialized_arguments\<close>) fails with \<open>variadic_symbol_not_in_last_place\<close>
  for every parameter list with a variadic parameter in a non-final position, and succeeds
  for every list without one, a variadic parameter in the final position included. The
  specialization of a template that is not in the cache fails with
  \<open>variadic_symbol_not_in_last_place\<close> for such a list when the typed parameters before the
  variadic one agree with the types supplied; and without a variadic parameter in a
  non-final position its parameter loop succeeds when the typed parameters agree.
\<close>

theorem variadic_symbol_not_in_last_place:
  "(non_final_variadic params k \<longrightarrow>
      (\<exists>st'. specialize_bind_specialized_arguments ctx params tmpargs inl st
         = (Inl error_variadic_symbol_not_in_last_place, st')))
   \<and> ((\<forall>j. \<not> non_final_variadic params j) \<longrightarrow>
      (\<exists>out st'. specialize_bind_specialized_arguments ctx params tmpargs inl st = (Inr out, st')))
   \<and> (non_final_variadic params k \<and> typed_params_agree params types k
        \<and> find_function st fr (Template a tid name params body il sc) types = None \<longrightarrow>
      (\<exists>st'. specialize_function spec fr (Template a tid name params body il sc) types st
         = (Inl error_variadic_symbol_not_in_last_place, st')))
   \<and> ((\<forall>j. \<not> non_final_variadic params j) \<and> typed_params_agree params types (length params) \<longrightarrow>
      (\<exists>st'. specialize_function_params fn (length params) types 0 params st = (Inr (), st')))"
proof (intro conjI impI)
  assume "non_final_variadic params k"
  then show "\<exists>st'. specialize_bind_specialized_arguments ctx params tmpargs inl st
         = (Inl error_variadic_symbol_not_in_last_place, st')"
    unfolding specialize_bind_specialized_arguments_def non_final_variadic_def
    using bind_from_variadic[of 0 params "length params" k] by simp
next
  assume "\<forall>j. \<not> non_final_variadic params j"
  then show "\<exists>out st'. specialize_bind_specialized_arguments ctx params tmpargs inl st = (Inr out, st')"
    unfolding specialize_bind_specialized_arguments_def non_final_variadic_def
    using bind_from_ok[of 0 params "length params"] by simp
next
  assume h: "non_final_variadic params k \<and> typed_params_agree params types k
        \<and> find_function st fr (Template a tid name params body il sc) types = None"
  then have "\<forall>j<k. \<not> is_variadic (params ! j) \<longrightarrow> sym_type (params ! j) \<noteq> nullptr \<longrightarrow>
      sym_type (params ! j) = (if 0 + j < length types then types ! (0 + j) else TYPE_Nothing)"
    by (auto simp: typed_params_agree_def non_final_variadic_def)
  from params_variadic[OF _ _ _ this, of "length params"] h
  have "\<And>fn st0. \<exists>st'. specialize_function_params fn (length params) types 0 params st0
     = (Inl error_variadic_symbol_not_in_last_place, st')"
    by (simp add: non_final_variadic_def)
  then obtain st' where "specialize_function_params (length (funs st)) (length params) types 0 params
      (st\<lparr>funs := funs st @
                      [(Function_from a name (Some body))
                         \<lparr>original := Some (Template a tid name params body il sc), frame := fr,
                          return_type := TYPE_NoReturn,
                          except_type := TYPE_NoReturn, instance_args := types\<rparr>]\<rparr>)
     = (Inl error_variadic_symbol_not_in_last_place, st')" by blast
  with h show "\<exists>st'. specialize_function spec fr (Template a tid name params body il sc) types st
         = (Inl error_variadic_symbol_not_in_last_place, st')"
    by (simp add: specialize_function_def Let_def bindR_def)
next
  assume h: "(\<forall>j. \<not> non_final_variadic params j) \<and> typed_params_agree params types (length params)"
  then have "\<forall>j<length params. \<not> is_variadic (params ! j) \<longrightarrow> sym_type (params ! j) \<noteq> nullptr \<longrightarrow>
      sym_type (params ! j) = (if 0 + j < length types then types ! (0 + j) else TYPE_Nothing)"
    by (auto simp: typed_params_agree_def)
  from params_ok[OF _ _ this, of "length params"] h
  show "\<exists>st'. specialize_function_params fn (length params) types 0 params st = (Inr (), st')"
    by (simp add: non_final_variadic_def)
qed



text \<open>
  C8, as stated, fails for the specialization of a template: the parameters are checked
  in order, and a typed parameter that disagrees with the type supplied for it, before
  the variadic parameter, is reported first, with the error of \<^verbatim>\<open>verify\<close>.
\<close>

theorem variadic_after_mismatch_counterexample:
  "non_final_variadic
     [Sym 1 1 ''x'' TYPE_I32 False, Sym 2 2 ''rest'' nullptr True, Sym 3 3 ''z'' nullptr False] 1
   \<and> find_function top_state (Some 0)
       (Template 0 11 ''g''
          [Sym 1 1 ''x'' TYPE_I32 False, Sym 2 2 ''rest'' nullptr True, Sym 3 3 ''z'' nullptr False]
          (ConstInt 4 TYPE_I32 1) False None) [TYPE_F32] = None
   \<and> fst (specialize_function (specialize sample_externals 3) (Some 0)
       (Template 0 11 ''g''
          [Sym 1 1 ''x'' TYPE_I32 False, Sym 2 2 ''rest'' nullptr True, Sym 3 3 ''z'' nullptr False]
          (ConstInt 4 TYPE_I32 1) False None) [TYPE_F32] top_state)
     = Inl (error_type_mismatch TYPE_I32 TYPE_F32)"
  by code_simp

theorem variadic_symbol_not_in_last_place_witness:
  "(\<exists>st'. specialize_bind_specialized_arguments (top_context EvalTarget_Symbol)
       [Sym 1 1 ''x'' TYPE_I32 False, Sym 2 2 ''rest'' nullptr True, Sym 3 3 ''z'' nullptr False]
       [ConstInt 5 TYPE_I32 7] True top_state
     = (Inl error_variadic_symbol_not_in_last_place, st'))
   \<and> (\<exists>out st'. specialize_bind_specialized_arguments (top_context EvalTarget_Symbol)
       [Sym 1 1 ''x'' TYPE_I32 False, Sym 2 2 ''rest'' nullptr True]
       [ConstInt 5 TYPE_I32 7] True top_state = (Inr out, st'))
   \<and> (\<exists>st'. specialize_function (specialize sample_externals 3) (Some 0)
       (Template 0 11 ''g''
          [Sym 1 1 ''x'' TYPE_I32 False, Sym 2 2 ''rest'' nullptr True, Sym 3 3 ''z'' nullptr False]
          (ConstInt 4 TYPE_I32 1) False None) [TYPE_I32] top_state
     = (Inl error_variadic_symbol_not_in_last_place, st'))
   \<and> (\<exists>st'. specialize_function_params 0 2 [TYPE_I32] 0
       [Sym 1 1 ''x'' TYPE_I32 False, Sym 2 2 ''rest'' nullptr True] top_state = (Inr (), st'))"
proof -
  let ?x = "Sym 1 1 ''x'' TYPE_I32 False"
  let ?r = "Sym 2 2 ''rest'' nullptr True"
  let ?z = "Sym 3 3 ''z'' nullptr False"
  let ?g = "Template 0 11 ''g'' [?x, ?r, ?z] (ConstInt 4 TYPE_I32 1) False None"
  have v: "non_final_variadic [?x, ?r, ?z] 1"
    by (simp add: non_final_variadic_def)
  have a: "typed_params_agree [?x, ?r, ?z] [TYPE_I32] 1"
    by (simp add: typed_params_agree_def)
  have f: "find_function top_state (Some 0) ?g [TYPE_I32] = None"
    by code_simp
  have n: "\<forall>j. \<not> non_final_variadic [?x, ?r] j"
    by (auto simp: non_final_variadic_def less_Suc_eq)
  have a2: "typed_params_agree [?x, ?r] [TYPE_I32] (length [?x, ?r])"
    by (auto simp: typed_params_agree_def less_Suc_eq)
  from variadic_symbol_not_in_last_place
    [of "[?x, ?r, ?z]" 1 "top_context EvalTarget_Symbol" "[ConstInt 5 TYPE_I32 7]" True top_state
        "[TYPE_I32]" "Some 0" 0 11 "''g''" "ConstInt 4 TYPE_I32 1" False None
        "specialize sample_externals 3" 0] v a f
  have p1: "(\<exists>st'. specialize_bind_specialized_arguments (top_context EvalTarget_Symbol)
       [?x, ?r, ?z] [ConstInt 5 TYPE_I32 7] True top_state
     = (Inl error_variadic_symbol_not_in_last_place, st'))"
    and p3: "(\<exists>st'. specialize_function (specialize sample_externals 3) (Some 0) ?g [TYPE_I32] top_state
     = (Inl error_variadic_symbol_not_in_last_place, st'))"
    by blast+
  have l: "length [?x, ?r] = 2"
    by simp
  from variadic_symbol_not_in_last_place
    [of "[?x, ?r]" 0 "top_context EvalTarget_Symbol" "[ConstInt 5 TYPE_I32 7]" True top_state
        "[TYPE_I32]" "Some 0" 0 11 "''g''" "ConstInt 4 TYPE_I32 1" False None
        "specialize sample_externals 3" 0] n a2
  have p2: "(\<exists>out st'. specialize_bind_specialized_arguments (top_context EvalTarget_Symbol)
       [?x, ?r] [ConstInt 5 TYPE_I32 7] True top_state = (Inr out, st'))"
    and q4: "(\<exists>st'. specialize_function_params 0 (length [?x, ?r]) [TYPE_I32] 0 [?x, ?r] top_state
       = (Inr (), st'))"
    by blast+
  from q4 have p4: "(\<exists>st'. specialize_function_params 0 2 [TYPE_I32] 0 [?x, ?r] top_state
       = (Inr (), st'))"
    by (simp only: l)
  from p1 p2 p3 p4 show ?thesis by blast
qed

subsection \<open>Builtin calls\<close>

lemma builtin_callee_types:
  "TYPE_Builtin \<noteq> TYPE_Closure" "TYPE_Builtin \<noteq> TYPE_ASTMacro"
  by (simp_all add: TYPE_Builtin_def TYPE_Closure_def TYPE_ASTMacro_def)

lemma specialize_call_interior_builtin:
  assumes "spec (with_symbol_target ctx) callee st = (Inr (ConstInt ca TYPE_Builtin x), st1)"
    and "specialize_arguments spec ctx args st1 = (Inr values, st2)"
  shows "specialize_call_interior ext n spec ctx a callee args st
    = (specialize_builtin ext st2 a (ConstInt ca TYPE_Builtin x) values (known_symbol ext x), st2)"
  using assms
  by (simp add: specialize_call_interior_def bindR_def bindE_def verify_def builtin_callee_types)

lemma message_includes_non_readable:
  "message_includes [Str ''can not load value from address of type '', Ty T,
     Str '' because the target is non-readable''] ''non-readable''"
  unfolding message_includes_def
  by (rule exI[of _ "'' because the target is non-readable''"],
      rule exI[of _ "'' because the target is ''"], rule exI[of _ "[]"]) simp

text \<open>
  C9: a call of the builtin \<open>Load\<close> or \<open>VolatileLoad\<close> whose argument has a pointer as its
  storage type fails, with a message that includes "non-readable", when the pointer lacks
  the readable flag; when the pointer is readable, the result is a call whose type is the
  element type of the pointer.
\<close>

theorem specialize_call_Load:
  assumes "spec (with_symbol_target ctx) callee st = (Inr (ConstInt ca TYPE_Builtin x), st1)"
    and "known_symbol ext x = FN_Load \<or> known_symbol ext x = FN_VolatileLoad"
    and "specialize_arguments spec ctx args st1 = (Inr [p], st2)"
    and "storage_type (get_type st2 p) = Inr (PointerType e rd wr c)"
  shows "(\<not> rd \<longrightarrow>
            (\<exists>m. specialize_call_interior ext n spec ctx a callee args st
                   = (Inl (location_error m), st2)
                 \<and> message_includes m ''non-readable''))
       \<and> (rd \<longrightarrow>
            specialize_call_interior ext n spec ctx a callee args st
              = (Inr (Call a e (ConstInt ca TYPE_Builtin x) [p]), st2))"
proof -
  have i: "specialize_call_interior ext n spec ctx a callee args st
    = (specialize_builtin ext st2 a (ConstInt ca TYPE_Builtin x) [p] (known_symbol ext x), st2)"
    using assms(1,3) by (rule specialize_call_interior_builtin)
  have b: "specialize_builtin ext st2 a (ConstInt ca TYPE_Builtin x) [p] (known_symbol ext x)
    = (if \<not> rd then
         Inl (location_error [Str ''can not load value from address of type '',
                Ty (PointerType e rd wr c), Str '' because the target is non-readable''])
       else Inr (Call a e (ConstInt ca TYPE_Builtin x) [p]))"
    using assms(2,4)
    by (auto simp: bindE_def checkargs_def verify_kind_Pointer_def RETARGTYPES_def
        arguments_type_def)
  show ?thesis
    unfolding i b using message_includes_non_readable by auto
qed

theorem specialize_call_Load_witness:
  "(\<exists>m. specialize_call_interior sample_externals 1 (specialize sample_externals 1)
            (top_context EvalTarget_Symbol) 9 (ConstInt 1 TYPE_Builtin 5)
            [Extern 2 (PointerType TYPE_I32 False True SYM_Unnamed) ''p''] top_state
          = (Inl (location_error m), top_state)
        \<and> message_includes m ''non-readable'')
   \<and> specialize_call_interior sample_externals 1 (specialize sample_externals 1)
        (top_context EvalTarget_Symbol) 9 (ConstInt 1 TYPE_Builtin 4)
        [Extern 2 (PointerType TYPE_I32 True False SYM_Unnamed) ''p''] top_state
      = (Inr (Call 9 TYPE_I32 (ConstInt 1 TYPE_Builtin 4)
                [Extern 2 (PointerType TYPE_I32 True False SYM_Unnamed) ''p'']), top_state)"
proof -
  let ?spec = "specialize sample_externals 1"
  let ?ctx = "top_context EvalTarget_Symbol"
  let ?p = "Extern 2 (PointerType TYPE_I32 False True SYM_Unnamed) ''p''"
  let ?q = "Extern 2 (PointerType TYPE_I32 True False SYM_Unnamed) ''p''"
  have c5: "?spec (with_symbol_target ?ctx) (ConstInt 1 TYPE_Builtin 5) top_state
      = (Inr (ConstInt 1 TYPE_Builtin 5), top_state)"
    by code_simp
  have c4: "?spec (with_symbol_target ?ctx) (ConstInt 1 TYPE_Builtin 4) top_state
      = (Inr (ConstInt 1 TYPE_Builtin 4), top_state)"
    by code_simp
  have k5: "known_symbol sample_externals 5 = FN_Load \<or> known_symbol sample_externals 5 = FN_VolatileLoad"
    by code_simp
  have k4: "known_symbol sample_externals 4 = FN_Load \<or> known_symbol sample_externals 4 = FN_VolatileLoad"
    by code_simp
  have ap: "specialize_arguments ?spec ?ctx [?p] top_state = (Inr [?p], top_state)"
    by code_simp
  have aq: "specialize_arguments ?spec ?ctx [?q] top_state = (Inr [?q], top_state)"
    by code_simp
  have sp: "storage_type (get_type top_state ?p) = Inr (PointerType TYPE_I32 False True SYM_Unnamed)"
    by simp
  have sq: "storage_type (get_type top_state ?q) = Inr (PointerType TYPE_I32 True False SYM_Unnamed)"
    by simp
  from specialize_call_Load[OF c5 k5 ap sp, where n = 1 and a = 9]
       specialize_call_Load[OF c4 k4 aq sq, where n = 1 and a = 9]
  show ?thesis by simp
qed

text \<open>
  C10: a call of the builtin \<open>Bitcast\<close> whose source value already has the destination
  type returns the source value itself, the first of the specialized arguments: no call
  node is made and the storage types are not looked at (the statement does not ask that
  they exist or are compatible).
\<close>

theorem specialize_call_Bitcast_same_type:
  assumes "spec (with_symbol_target ctx) callee st = (Inr (ConstInt ca TYPE_Builtin x), st1)"
    and "known_symbol ext x = FN_Bitcast"
    and "specialize_arguments spec ctx args st1 = (Inr [src, dest], st2)"
    and "extract_type_constant dest = Inr DestT"
    and "get_type st2 src = DestT"
  shows "specialize_call_interior ext n spec ctx a callee args st = (Inr src, st2)"
proof -
  have "specialize_call_interior ext n spec ctx a callee args st
    = (specialize_builtin ext st2 a (ConstInt ca TYPE_Builtin x) [src, dest]
         (known_symbol ext x), st2)"
    using assms(1,3) by (rule specialize_call_interior_builtin)
  then show ?thesis
    using assms(2,4,5) by (simp add: bindE_def checkargs_def)
qed

theorem specialize_call_Bitcast_same_type_witness:
  "specialize_call_interior sample_externals 1 (specialize sample_externals 1)
     (top_context EvalTarget_Symbol) 9 (ConstInt 1 TYPE_Builtin 3)
     [Extern 2 (TypenameType ''handle'' nullptr) ''h'',
      ConstPointer 3 (PtrType (TypenameType ''handle'' nullptr))] top_state
   = (Inr (Extern 2 (TypenameType ''handle'' nullptr) ''h''), top_state)
   \<and> storage_type (TypenameType ''handle'' nullptr)
       = Inl (error_opaque_type (TypenameType ''handle'' nullptr))"
proof -
  let ?spec = "specialize sample_externals 1"
  let ?ctx = "top_context EvalTarget_Symbol"
  let ?h = "Extern 2 (TypenameType ''handle'' nullptr) ''h''"
  let ?d = "ConstPointer 3 (PtrType (TypenameType ''handle'' nullptr))"
  have c: "?spec (with_symbol_target ?ctx) (ConstInt 1 TYPE_Builtin 3) top_state
      = (Inr (ConstInt 1 TYPE_Builtin 3), top_state)"
    by code_simp
  have k: "known_symbol sample_externals 3 = FN_Bitcast"
    by code_simp
  have a: "specialize_arguments ?spec ?ctx [?h, ?d] top_state = (Inr [?h, ?d], top_state)"
    by code_simp
  have e: "extract_type_constant ?d = Inr (TypenameType ''handle'' nullptr)"
    by code_simp
  have g: "get_type top_state ?h = TypenameType ''handle'' nullptr"
    by simp
  from specialize_call_Bitcast_same_type[OF c k a e g, where n = 1 and a = 9]
  show ?thesis by simp
qed

subsection \<open>Constant conditions of \<open>If\<close>\<close>


text \<open>
  What \<open>surviving_clauses\<close> is for conditions that are specialized already (the
  specializer returns them as they are): the clauses whose condition is not a constant,
  in their order.
\<close>

lemma surviving_clauses_typed:
  "\<forall>c\<in>set cs. spec subctx (fst (snd c)) st = (Inr (fst (snd c)), st)
       \<and> get_type st (fst (snd c)) = TYPE_Bool
       \<and> (\<forall>ca cT cv. fst (snd c) = ConstInt ca cT cv \<longrightarrow> cv = 0) \<Longrightarrow>
   surviving_clauses spec subctx cs st
     = Some (filter (\<lambda>c. \<not> is_ConstInt (fst (snd c))) cs, st)"
proof (induction cs)
  case Nil
  then show ?case by simp
next
  case (Cons c cs)
  obtain a cond v where c: "c = (a, cond, v)" by (cases c)
  from Cons.prems c have h: "spec subctx cond st = (Inr cond, st)"
    "get_type st cond = TYPE_Bool" "\<And>ca cT cv. cond = ConstInt ca cT cv \<Longrightarrow> cv = 0"
    by auto
  from Cons have ih: "surviving_clauses spec subctx cs st
     = Some (filter (\<lambda>c. \<not> is_ConstInt (fst (snd c))) cs, st)" by simp
  show ?case using c h ih by (cases cond) auto
qed









subsection \<open>The error of a group of jobs\<close>

text \<open>
  Two jobs that both fail, a \<open>Break\<close> and a \<open>Repeat\<close> outside of a loop: both run, and
  the error that \<open>specialize_jobs\<close> returns is the one set last, the error of the second.
\<close>

lemma specialize_jobs_last_error:
  "fst (specialize_jobs 2 (specialize sample_externals 2) (top_context EvalTarget_Symbol)
     [Break 1 nullptr (ConstInt 2 TYPE_I32 1), Repeat 3 nullptr []] top_state)
   = Inl error_illegal_repeat_outside_loop"
  by code_simp

subsection \<open>Recursive calls\<close>

text \<open>
  The branch of \<open>specialize_call_interior\<close> for an incomplete function of the cache, for
  any recursive entry: a \<^verbatim>\<open>return_type\<close> that is still \<open>NoReturn\<close> is not null, so the call
  is typed with the current function type; the scheduler is not part of the result.
\<close>

lemma incomplete_function_typed_at_once:
  assumes "spec (with_symbol_target ctx) callee st
      = (Inr (ConstPointer ca (PtrClosure func fr)), st1)"
    and "specialize_arguments spec ctx args st1 = (Inr values, st2)"
    and "\<not> template_is_inline func"
    and "specialize_function spec fr func (map (get_type st2) values) st2 = (Inr f, st3)"
    and "f < length (funs st3)"
    and "\<not> complete (funs st3 ! f)"
    and "return_type (funs st3 ! f) = TYPE_NoReturn"
  shows "specialize_call_interior ext n spec ctx a callee args st
    = call_function_pointer ctx a (Function f) values (get_function_type (funs st3 ! f)) st3"
  using assms
  by (simp add: specialize_call_interior_def bindR_def bindE_def verify_def Let_def)

text \<open>
  C1 does not hold of the code. \<open>specialize_function\<close> sets the \<^verbatim>\<open>return_type\<close> of a new
  function to \<open>NoReturn\<close>, which is not null, so that the test \<^verbatim>\<open>else if (f->return_type)\<close>
  of \<open>specialize_call_interior\<close> succeeds for every incomplete function of the cache;
  \<open>wait_for_return_type\<close> and \<open>untyped_recursive_call\<close> are never reached. For
  \<^verbatim>\<open>fn f () (f)\<close>, specialized with a job pending in the queue, the recursive call is typed
  at once with the function type that returns \<open>NoReturn\<close>: the specialization succeeds, the
  scheduler has not run (the job is still pending, no slot is filled).
\<close>

theorem recursive_call_without_return_type:
  "fst (specialize_function (specialize sample_externals 3) (Some 0) recursive_template []
          (top_state\<lparr>jobs := [\<lparr>job_slot = 0, job_ctx = top_context EvalTarget_Symbol,
                                 job_node = ConstInt 8 TYPE_I32 1\<rparr>]\<rparr>)) = Inr 1
   \<and> map f_value (funs (snd (specialize_function (specialize sample_externals 3) (Some 0)
          recursive_template []
          (top_state\<lparr>jobs := [\<lparr>job_slot = 0, job_ctx = top_context EvalTarget_Symbol,
                                 job_node = ConstInt 8 TYPE_I32 1\<rparr>]\<rparr>))))
       = [None, Some (Call 5 TYPE_NoReturn (Function 1) [])]
   \<and> map return_type (funs (snd (specialize_function (specialize sample_externals 3) (Some 0)
          recursive_template []
          (top_state\<lparr>jobs := [\<lparr>job_slot = 0, job_ctx = top_context EvalTarget_Symbol,
                                 job_node = ConstInt 8 TYPE_I32 1\<rparr>]\<rparr>))))
       = [nullptr, TYPE_NoReturn]
   \<and> jobs (snd (specialize_function (specialize sample_externals 3) (Some 0)
          recursive_template []
          (top_state\<lparr>jobs := [\<lparr>job_slot = 0, job_ctx = top_context EvalTarget_Symbol,
                                 job_node = ConstInt 8 TYPE_I32 1\<rparr>]\<rparr>)))
       = [\<lparr>job_slot = 0, job_ctx = top_context EvalTarget_Symbol,
           job_node = ConstInt 8 TYPE_I32 1\<rparr>]
   \<and> slots (snd (specialize_function (specialize sample_externals 3) (Some 0)
          recursive_template []
          (top_state\<lparr>jobs := [\<lparr>job_slot = 0, job_ctx = top_context EvalTarget_Symbol,
                                 job_node = ConstInt 8 TYPE_I32 1\<rparr>]\<rparr>))) = []"
  by code_simp

subsection \<open>Typed results\<close>

lemma specialize_Keyed_result_untyped:
  "(case specialize_Keyed spec ctx a key v st of
      (Inl e, s) \<Rightarrow> True
    | (Inr r, s) \<Rightarrow> \<not> is_typed s r)"
  by (auto simp: specialize_Keyed_def bindR_def is_typed_def split: prod.splits sum.splits)

text \<open>
  C2 does not hold of the code. \<open>specialize_Keyed\<close> returns the node of
  \<^verbatim>\<open>Keyed::from(anchor, key, value)\<close> without a \<^verbatim>\<open>set_type\<close>, where every other rule
  types the node it makes: the specialized \<open>Keyed\<close> node carries no type, neither a
  returning one nor \<open>NoReturn\<close>. Under the target \<open>Return\<close> the untyped node reaches
  \<open>merge_return_type\<close>, whose assertion on its second operand fails.
\<close>

theorem specialize_Keyed_untyped:
  "specialize sample_externals 2 (top_context EvalTarget_Symbol)
      (Keyed 1 nullptr ''k'' (ConstInt 2 TYPE_I32 1)) top_state
     = (Inr (Keyed 1 nullptr ''k'' (ConstInt 2 TYPE_I32 1)), top_state)
   \<and> \<not> is_typed top_state (Keyed 1 nullptr ''k'' (ConstInt 2 TYPE_I32 1))
   \<and> get_type top_state (Keyed 1 nullptr ''k'' (ConstInt 2 TYPE_I32 1)) \<noteq> TYPE_NoReturn
   \<and> fst (specialize sample_externals 2 (top_context EvalTarget_Return)
      (Keyed 1 nullptr ''k'' (ConstInt 2 TYPE_I32 1)) top_state) = Inl assertion_failed"
  by code_simp

subsection \<open>The target \<open>Return\<close>\<close>

text \<open>
  C4 does not hold of the code. \<open>specialize\<close> returns a node that is typed and not bound
  at once (\<^verbatim>\<open>if (!result && node->is_typed()) return node;\<close>), before the target is looked
  at: under the target \<open>Return\<close> the constant \<open>1\<close> comes back as it is, of returning type,
  not wrapped in a \<open>Return\<close>, and the \<^verbatim>\<open>return_type\<close> of the function is not joined. The
  assertion \<^verbatim>\<open>assert(!is_returning(fn->value->get_type()))\<close> of \<open>specialize_function\<close>, that
  every body specialized under \<open>Return\<close> is non-returning, then fails for \<^verbatim>\<open>fn g () 1\<close>.
\<close>

theorem typed_node_not_returned:
  "specialize sample_externals 1 (top_context EvalTarget_Return) (ConstInt 2 TYPE_I32 1) top_state
     = (Inr (ConstInt 2 TYPE_I32 1), top_state)
   \<and> is_returning (get_type top_state (ConstInt 2 TYPE_I32 1))
   \<and> specialize sample_externals 2 (top_context EvalTarget_Return)
        (Return 3 nullptr (ConstInt 2 TYPE_I32 1)) top_state
     = (Inr (Return 2 TYPE_NoReturn (ConstInt 2 TYPE_I32 1)),
        update_fun 0 (\<lambda>fn. fn\<lparr>return_type := TYPE_I32\<rparr>) top_state)
   \<and> fst (specialize_function (specialize sample_externals 3) (Some 0)
        (Template 0 11 ''g'' [] (ConstInt 2 TYPE_I32 1) False None) [] top_state)
     = Inl assertion_failed"
  by code_simp

end
